theory Spec2Isabelle
  imports Main "HOL-Library.List_Lexorder" "HOL-Library.Char_ord"
begin

section \<open>Vidtube: a shallow embedding of the request handlers\<close>

text \<open>
  The handlers of the video platform are asynchronous JavaScript functions over a MongoDB
  database (through Mongoose), a media gateway (Cloudinary) and the local file system.
  Each handler is embedded as a function from its request parameters and the state of
  these three stores (the record \<open>world\<close>) to its outcome and the new state.
  A thrown \<open>ApiError\<close>, a Mongoose validation error and an uncaught file-system
  exception are values of the type \<open>error\<close>; an answer sent with
  \<open>res.status(c).json(b)\<close> is a \<open>reply\<close>.
  What the external services answer is not decided by this repository: it is the record
  \<open>env\<close>, a parameter of every handler that calls them.
\<close>

subsection \<open>Identifiers and request parameters\<close>

type_synonym objectid = nat

text \<open>
  A route or query parameter that a handler passes to \<open>mongoose.Types.ObjectId.isValid\<close>:
  absent (\<open>undefined\<close>), a string the library rejects (the empty string included),
  or a string the library accepts, which denotes the ObjectId it is cast to.
\<close>

datatype param = Absent | Malformed string | Oid objectid

fun isValid :: "param \<Rightarrow> bool" where
  "isValid (Oid i) = True"
| "isValid (Malformed s) = False"
| "isValid Absent = False"

text \<open>
  JavaScript's \<open>!x\<close> on such a parameter: \<open>undefined\<close> and \<open>""\<close> are falsy.
  The handlers below are written by cases on the parameter; the lemma \<open>invalid_ids\<close>
  relates the cases to these two tests.
\<close>

fun falsy_param :: "param \<Rightarrow> bool" where
  "falsy_param Absent = True"
| "falsy_param (Malformed s) = (s = [])"
| "falsy_param (Oid i) = False"

text \<open>\<open>!s\<close> on an optional string of the request body.\<close>

fun falsy_str :: "string option \<Rightarrow> bool" where
  "falsy_str None = True"
| "falsy_str (Some s) = (s = [])"

text \<open>
  A field of the request body as the body parsers deliver it: a text (every field of a
  multipart form, and a JSON string) or a JSON number; the numbers of the model are the
  whole ones. \<open>!x\<close> is true on the empty text and on the number 0.
\<close>

datatype field = JString string | JNumber int

fun falsy_field :: "field \<Rightarrow> bool" where
  "falsy_field (JString s) = (s = [])"
| "falsy_field (JNumber n) = (n = 0)"

text \<open>
  A string of the model is a JavaScript string whose code units are below 256, and its
  length is the number of its code units. \<open>String.prototype.trim\<close> strips the white
  space and the line terminators of ECMAScript; below 256 these are the tabulator, line
  feed, vertical tabulator, form feed, carriage return, space and no-break space.
\<close>

definition is_space :: "char \<Rightarrow> bool" where
  "is_space c =
     (c \<in> set [CHR 0x09, CHR 0x0A, CHR 0x0B, CHR 0x0C, CHR 0x0D, CHR 0x20, CHR 0xA0])"

definition trim :: "string \<Rightarrow> string" where
  "trim s = rev (dropWhile is_space (rev (dropWhile is_space s)))"

subsection \<open>Errors\<close>

datatype error =
    ApiError nat string
  | ValidationError string
  | FsError string

subsection \<open>Documents\<close>

text \<open>
  The Video schema (video.model.js); \<open>v_id\<close> is the document's \<open>_id\<close> and
  \<open>createdAt\<close> the time stamp that the option \<open>timestamps\<close> adds.
\<close>

record video =
  v_id :: objectid
  videoFile :: string
  videoPublicId :: string
  thumbnail :: string
  thumbnailPublicId :: string
  title :: string
  description :: string
  duration :: int
  views :: nat
  isPublished :: bool
  likes :: "objectid list"
  comments :: "objectid list"
  owner :: objectid
  createdAt :: nat

text \<open>
  Modelled from the spec: the Comment, Tweet, Like, Subscription and Playlist schemas
  (the files under models/ other than video.model.js are not among the sources). The
  fields are those of section 3 of the specification and those the controllers read
  and write.
\<close>

record comment =
  c_id :: objectid
  c_content :: string
  c_video :: objectid
  c_owner :: objectid
  c_likes :: "objectid list"

record tweet =
  t_id :: objectid
  t_content :: string
  t_owner :: objectid
  t_replyTo :: "objectid option"
  t_createdAt :: nat

record like =
  l_id :: objectid
  likedBy :: objectid
  l_video :: "objectid option"
  l_comment :: "objectid option"
  l_tweet :: "objectid option"

record subscription =
  s_id :: objectid
  subscriber :: objectid
  channel :: objectid

record playlist =
  p_id :: objectid
  p_name :: string
  p_description :: string
  p_owner :: objectid
  p_videos :: "objectid list"

subsection \<open>The media gateway and the world\<close>

datatype resource_type = Video_kind | Image_kind | Auto_kind

text \<open>A call of the Cloudinary SDK: \<open>uploader.upload(path, {resource_type, public_id})\<close>
  or \<open>uploader.destroy(public_id, {resource_type})\<close>.\<close>

datatype gateway_call =
    Upload string resource_type string
  | Destroy string resource_type

record upload_response =
  url :: string
  public_id :: string

text \<open>
  The collections in their natural order (of the User collection, whose schema is not
  among the sources, only the ids), the supply of fresh ObjectIds, the clock, the local
  files, the calls made to the gateway so far and the number of UUIDs drawn.
\<close>

record world =
  users :: "objectid list"
  videos :: "video list"
  comment_docs :: "comment list"
  tweets :: "tweet list"
  like_docs :: "like list"
  subscriptions :: "subscription list"
  playlists :: "playlist list"
  next_id :: objectid
  now :: nat
  files :: "string set"
  calls :: "gateway_call list"
  uuid_calls :: nat

subsection \<open>Replies\<close>

text \<open>The result of \<open>Video.aggregatePaginate\<close> with the custom label \<open>videos\<close> for its documents.\<close>

record page =
  pg_videos :: "video list"
  totalDocs :: nat
  pg_limit :: int
  pg_page :: int
  totalPages :: nat

text \<open>The data of an \<open>ApiResponse\<close>; \<open>P_object\<close> is \<open>{}\<close>.\<close>

datatype payload =
    P_video video
  | P_videos "video list"
  | P_page "page option"
  | P_comment comment
  | P_tweets "tweet list"
  | P_playlists "playlist list"
  | P_subscription subscription
  | P_like_status objectid nat bool
  | P_object
  | P_null

text \<open>A JSON body: \<open>new ApiResponse(statusCode, data, message)\<close>, or \<open>{message: []}\<close>.\<close>

datatype body = ApiResponse nat payload string | Message_list

text \<open>\<open>res.status(c).json(b)\<close>.\<close>

datatype reply = Reply (status: nat) (body: body)

subsection \<open>The listing pipeline\<close>

text \<open>The value of \<open>parseInt\<close> on a query parameter.\<close>

datatype qnum = NaN | Num int

datatype stage =
    Match_text string
  | Match_owner objectid
  | Sort string int
  | Lookup_owner
  | AddFields_owner
  | Project_card

record paginate_options =
  o_page :: qnum
  o_limit :: qnum

text \<open>
  What the libraries answer. \<open>gw_upload path public_id\<close> and
  \<open>gw_destroy public_id kind\<close> are \<open>None\<close> when the SDK call
  rejects (throws), and the response object otherwise; \<open>uuidv4 n\<close> is the
  n-th identifier drawn; \<open>aggregatePaginate pipeline options docs\<close> is what the
  database and the pagination plugin return for the pipeline over the Video collection;
  \<open>castNumber text\<close> is the number that Mongoose casts a text to for a path of the
  schema type Number, and \<open>None\<close> when the cast fails.
\<close>

record env =
  uuidv4 :: "nat \<Rightarrow> string"
  gw_upload :: "string \<Rightarrow> string \<Rightarrow> upload_response option"
  gw_destroy :: "string \<Rightarrow> resource_type \<Rightarrow> string option"
  aggregatePaginate :: "stage list \<Rightarrow> paginate_options \<Rightarrow> video list \<Rightarrow> page option"
  castNumber :: "string \<Rightarrow> int option"

subsection \<open>cloudinary.js\<close>

text \<open>\<open>fs.unlinkSync\<close>: removes the file, and throws (ENOENT) when there is none.\<close>

definition unlinkSync :: "string \<Rightarrow> world \<Rightarrow> world option" where
  "unlinkSync p w =
     (if p \<in> files w then Some (w\<lparr>files := files w - {p}\<rparr>) else None)"

text \<open>
  \<open>uploadOnCloudinary\<close>. The body of the \<open>try\<close> returns \<open>null\<close> on an empty
  path, draws the public id (the template \<open>`$${uuidv4()}`\<close> is a dollar sign followed
  by the UUID), uploads and unlinks; the \<open>catch\<close> unlinks and returns \<open>null\<close>.
  An exception of the \<open>unlinkSync\<close> in the \<open>catch\<close> block is not caught.
\<close>

definition uploadOnCloudinary ::
  "env \<Rightarrow> string \<Rightarrow> world \<Rightarrow> (error + upload_response option) \<times> world" where
  "uploadOnCloudinary e localFilePath w =
     (if localFilePath = [] then (Inr None, w)
      else
        let publicId = CHR ''$'' # uuidv4 e (uuid_calls w);
            w1 = w\<lparr>uuid_calls := Suc (uuid_calls w),
                    calls := calls w @ [Upload localFilePath Auto_kind publicId]\<rparr>;
            on_catch = (case unlinkSync localFilePath w1 of
                          Some w2 \<Rightarrow> (Inr None, w2)
                        | None \<Rightarrow> (Inl (FsError ''ENOENT''), w1))
        in case gw_upload e localFilePath publicId of
             Some response \<Rightarrow>
               (case unlinkSync localFilePath w1 of
                  Some w2 \<Rightarrow> (Inr (Some response), w2)
                | None \<Rightarrow> on_catch)
           | None \<Rightarrow> on_catch)"

text \<open>
  \<open>deleteFromCloudinary\<close> and \<open>deleteImageFromCloudinary\<close>: \<open>null\<close> on an empty
  public id and when the SDK call throws, the response otherwise. They differ in the
  resource type only.
\<close>

definition deleteFromCloudinary :: "env \<Rightarrow> string \<Rightarrow> world \<Rightarrow> string option \<times> world" where
  "deleteFromCloudinary e publicId w =
     (if publicId = [] then (None, w)
      else (gw_destroy e publicId Video_kind,
            w\<lparr>calls := calls w @ [Destroy publicId Video_kind]\<rparr>))"

definition deleteImageFromCloudinary :: "env \<Rightarrow> string \<Rightarrow> world \<Rightarrow> string option \<times> world" where
  "deleteImageFromCloudinary e publicId w =
     (if publicId = [] then (None, w)
      else (gw_destroy e publicId Image_kind,
            w\<lparr>calls := calls w @ [Destroy publicId Image_kind]\<rparr>))"

subsection \<open>Collections\<close>

text \<open>
  \<open>findOneAndDelete\<close>, \<open>findByIdAndDelete\<close> and \<open>deleteOne\<close> remove the first
  document that matches, if there is one.
\<close>

fun remove_first :: "('a \<Rightarrow> bool) \<Rightarrow> 'a list \<Rightarrow> 'a list" where
  "remove_first P [] = []"
| "remove_first P (x # xs) = (if P x then xs else x # remove_first P xs)"

definition Video_findById :: "objectid \<Rightarrow> world \<Rightarrow> video option" where
  "Video_findById i w = find (\<lambda>d. v_id d = i) (videos w)"

text \<open>\<open>video.save()\<close> writes the document back under its \<open>_id\<close>.\<close>

definition Video_save :: "video \<Rightarrow> world \<Rightarrow> world" where
  "Video_save v w = w\<lparr>videos := map (\<lambda>d. if v_id d = v_id v then v else d) (videos w)\<rparr>"

definition Video_findByIdAndDelete :: "objectid \<Rightarrow> world \<Rightarrow> world" where
  "Video_findByIdAndDelete i w = w\<lparr>videos := remove_first (\<lambda>d. v_id d = i) (videos w)\<rparr>"

text \<open>
  The validators of the Video schema. \<open>required\<close> on a string refuses the empty
  string; \<open>minLength\<close> and \<open>maxLength\<close> compare the length of the string.
\<close>

definition validate_title :: "string \<Rightarrow> bool" where
  "validate_title t = (t \<noteq> [] \<and> 3 \<le> length t \<and> length t \<le> 100)"

definition validate_description :: "string \<Rightarrow> bool" where
  "validate_description d = (d \<noteq> [] \<and> 10 \<le> length d \<and> length d \<le> 5000)"

definition validate_video :: "video \<Rightarrow> bool" where
  "validate_video v =
     (videoFile v \<noteq> [] \<and> videoPublicId v \<noteq> [] \<and> thumbnail v \<noteq> []
      \<and> thumbnailPublicId v \<noteq> [] \<and> validate_title (title v)
      \<and> validate_description (description v))"

text \<open>The cast of the \<open>duration\<close> of the body to the schema type Number.\<close>

fun to_number :: "env \<Rightarrow> field \<Rightarrow> int option" where
  "to_number e (JNumber n) = Some n"
| "to_number e (JString s) = castNumber e s"

text \<open>
  \<open>Video.create\<close> casts the values to the types of the schema, fills in the defaults,
  validates, and only then inserts the document; a failed cast is reported as a
  validation error too.
\<close>

definition Video_create ::
  "env \<Rightarrow> string \<Rightarrow> string \<Rightarrow> string \<Rightarrow> string \<Rightarrow> string \<Rightarrow> string \<Rightarrow> field \<Rightarrow> objectid
     \<Rightarrow> world \<Rightarrow> (error + video) \<times> world" where
  "Video_create e t d vf vpid th thpid dv own w =
     (case to_number e dv of
        None \<Rightarrow> (Inl (ValidationError ''Video validation failed''), w)
      | Some dur \<Rightarrow>
          let doc = \<lparr>v_id = next_id w, videoFile = vf, videoPublicId = vpid, thumbnail = th,
                     thumbnailPublicId = thpid, title = t, description = d, duration = dur,
                     views = 0, isPublished = True, likes = [], comments = [], owner = own,
                     createdAt = now w\<rparr>
          in if validate_video doc
             then (Inr doc, w\<lparr>videos := videos w @ [doc], next_id := Suc (next_id w)\<rparr>)
             else (Inl (ValidationError ''Video validation failed''), w))"

subsection \<open>video.controller.js\<close>

text \<open>The query string of \<open>getAllVideos\<close>; \<open>None\<close> is a parameter that is not given.\<close>

record list_query =
  q_page :: "qnum option"
  q_limit :: "qnum option"
  q_query :: "string option"
  q_sortBy :: "string option"
  q_sortType :: "string option"
  q_userId :: param

fun text_stage :: "string option \<Rightarrow> stage list" where
  "text_stage None = []"
| "text_stage (Some s) = (if s = [] then [] else [Match_text s])"

fun owner_stage :: "param \<Rightarrow> error + stage list" where
  "owner_stage Absent = Inr []"
| "owner_stage (Malformed s) =
     (if s = [] then Inr [] else Inl (ApiError 400 ''Invalid user ID''))"
| "owner_stage (Oid i) = Inr [Match_owner i]"

definition list_pipeline :: "list_query \<Rightarrow> error + stage list" where
  "list_pipeline q =
     (case owner_stage (q_userId q) of
        Inl err \<Rightarrow> Inl err
      | Inr own \<Rightarrow>
          Inr (text_stage (q_query q) @ own @
               [Sort (case q_sortBy q of None \<Rightarrow> ''createdAt'' | Some f \<Rightarrow> f)
                     (if (case q_sortType q of None \<Rightarrow> ''desc'' | Some t \<Rightarrow> t) = ''asc''
                      then 1 else - 1),
                Lookup_owner, AddFields_owner, Project_card]))"

definition list_options :: "list_query \<Rightarrow> paginate_options" where
  "list_options q =
     \<lparr>o_page = (case q_page q of None \<Rightarrow> Num 1 | Some n \<Rightarrow> n),
      o_limit = (case q_limit q of None \<Rightarrow> Num 10 | Some n \<Rightarrow> n)\<rparr>"

text \<open>The test \<open>!videos || videos.videos.length === 0\<close>.\<close>

fun no_videos :: "page option \<Rightarrow> bool" where
  "no_videos None = True"
| "no_videos (Some p) = (pg_videos p = [])"

text \<open>
  \<open>getAllVideos\<close>. The result is the list of the replies the handler issues, in the
  order of its \<open>res.status(c).json(b)\<close> calls: the branch of the empty listing has no
  \<open>return\<close>, so the handler goes on to the call of the success reply.
\<close>

definition getAllVideos :: "env \<Rightarrow> list_query \<Rightarrow> world \<Rightarrow> error + reply list" where
  "getAllVideos e q w =
     (case list_pipeline q of
        Inl err \<Rightarrow> Inl err
      | Inr pipeline \<Rightarrow>
          let vids = aggregatePaginate e pipeline (list_options q) (videos w)
          in Inr ((if no_videos vids then [Reply 300 Message_list] else []) @
                  [Reply 200 (ApiResponse 200 (P_page vids) ''Videos fetched successfully'')]))"

text \<open>
  Express writes the first reply to the client; a later \<open>json\<close> call on the same
  response finds the headers sent and delivers nothing.
\<close>

fun delivered :: "reply list \<Rightarrow> reply option" where
  "delivered [] = None"
| "delivered (r # rs) = Some r"

text \<open>
  \<open>publishAVideo\<close>: the fields of the body (a field that is missing, an empty text
  and the number 0 are falsy; the text \<open>0\<close> of a form field is not), the paths of the
  two uploaded files
  (\<open>req.files?.videoFile?.[0]?.path\<close>), the two uploads, then \<open>Video.create\<close>.
\<close>

definition publishAVideo ::
  "env \<Rightarrow> objectid \<Rightarrow> string option \<Rightarrow> string option \<Rightarrow> field option
     \<Rightarrow> string option \<Rightarrow> string option \<Rightarrow> world \<Rightarrow> (error + reply) \<times> world" where
  "publishAVideo e uid b_title b_description b_duration videoPath thumbnailPath w =
     (case (b_title, b_description, b_duration) of
        (Some t, Some d, Some dv) \<Rightarrow>
          if t = [] \<or> d = [] \<or> falsy_field dv
          then (Inl (ApiError 400 ''Title, description, and duration are required''), w)
          else if falsy_str videoPath
          then (Inl (ApiError 400 ''Video file is required''), w)
          else if falsy_str thumbnailPath
          then (Inl (ApiError 400 ''Thumbnail file is required''), w)
          else
            (case uploadOnCloudinary e (case videoPath of Some p \<Rightarrow> p | None \<Rightarrow> []) w of
               (Inl ex, w1) \<Rightarrow> (Inl ex, w1)
             | (Inr videoUploadResult, w1) \<Rightarrow>
                 (case uploadOnCloudinary e
                         (case thumbnailPath of Some p \<Rightarrow> p | None \<Rightarrow> []) w1 of
                    (Inl ex, w2) \<Rightarrow> (Inl ex, w2)
                  | (Inr thumbnailUploadResult, w2) \<Rightarrow>
                      (case (videoUploadResult, thumbnailUploadResult) of
                         (Some vr, Some tr) \<Rightarrow>
                           (case Video_create e t d (url vr) (public_id vr) (url tr)
                                   (public_id tr) dv uid w2 of
                              (Inl err, w3) \<Rightarrow> (Inl err, w3)
                            | (Inr newVideo, w3) \<Rightarrow>
                                (Inr (Reply 201 (ApiResponse 200 (P_video newVideo)
                                        ''Video published successfully'')), w3))
                       | _ \<Rightarrow>
                           (Inl (ApiError 500 ''Error uploading files to Cloudinary''), w2))))
      | _ \<Rightarrow> (Inl (ApiError 400 ''Title, description, and duration are required''), w))"

text \<open>
  The assignments \<open>if (title?.trim()) video.title = title.trim()\<close> of \<open>updateVideo\<close>,
  and the validation that \<open>save\<close> runs on the paths they modified.
\<close>

fun set_title :: "string option \<Rightarrow> video \<Rightarrow> video" where
  "set_title None v = v"
| "set_title (Some t) v = (if trim t = [] then v else v\<lparr>title := trim t\<rparr>)"

fun set_description :: "string option \<Rightarrow> video \<Rightarrow> video" where
  "set_description None v = v"
| "set_description (Some d) v = (if trim d = [] then v else v\<lparr>description := trim d\<rparr>)"

definition modified_paths_valid :: "string option \<Rightarrow> string option \<Rightarrow> video \<Rightarrow> bool" where
  "modified_paths_valid b_title b_description v =
     ((falsy_str (map_option trim b_title) \<or> validate_title (title v)) \<and>
      (falsy_str (map_option trim b_description) \<or> validate_description (description v)))"

text \<open>The thumbnail of \<open>updateVideo\<close>: uploaded when the request carries a file.\<close>

definition update_thumbnail ::
  "env \<Rightarrow> string option \<Rightarrow> video \<Rightarrow> world \<Rightarrow> (error + video) \<times> world" where
  "update_thumbnail e file v w =
     (case file of
        None \<Rightarrow> (Inr v, w)
      | Some thumbnailLocalPath \<Rightarrow>
          (case uploadOnCloudinary e thumbnailLocalPath w of
             (Inl ex, w1) \<Rightarrow> (Inl ex, w1)
           | (Inr None, w1) \<Rightarrow> (Inl (ApiError 400 ''Failed to upload thumbnail''), w1)
           | (Inr (Some uploadedThumbnail), w1) \<Rightarrow>
               if url uploadedThumbnail = []
               then (Inl (ApiError 400 ''Failed to upload thumbnail''), w1)
               else (Inr (v\<lparr>thumbnail := url uploadedThumbnail\<rparr>), w1)))"

text \<open>
  \<open>updateVideo\<close>. The authenticated user \<open>uid\<close> (\<open>req.user._id\<close>) is part of the
  request; the handler does not read it.
\<close>

fun updateVideo ::
  "env \<Rightarrow> objectid \<Rightarrow> param \<Rightarrow> string option \<Rightarrow> string option \<Rightarrow> string option \<Rightarrow> world
     \<Rightarrow> (error + reply) \<times> world" where
  "updateVideo e uid Absent b_title b_description file w =
     (Inl (ApiError 400 ''Video ID is required''), w)"
| "updateVideo e uid (Malformed s) b_title b_description file w =
     (if s = [] then (Inl (ApiError 400 ''Video ID is required''), w)
      else (Inl (ApiError 400 ''Invalid Video ID format''), w))"
| "updateVideo e uid (Oid videoId) b_title b_description file w =
     (case Video_findById videoId w of
        None \<Rightarrow> (Inl (ApiError 404 ''Video not found''), w)
      | Some v \<Rightarrow>
          (case update_thumbnail e file (set_description b_description (set_title b_title v)) w of
             (Inl err, w1) \<Rightarrow> (Inl err, w1)
           | (Inr v', w1) \<Rightarrow>
               if modified_paths_valid b_title b_description v'
               then (Inr (Reply 200 (ApiResponse 200 (P_video v') ''Video updated successfully'')),
                     Video_save v' w1)
               else (Inl (ValidationError ''Video validation failed''), w1)))"

text \<open>The two deletions at the gateway that \<open>deleteVideo\<close> makes, each guarded by
  the presence of the public id; both call \<open>deleteFromCloudinary\<close>.\<close>

definition delete_video_asset :: "env \<Rightarrow> video \<Rightarrow> world \<Rightarrow> (error + unit) \<times> world" where
  "delete_video_asset e v w =
     (if videoPublicId v \<noteq> [] then
        (case deleteFromCloudinary e (videoPublicId v) w of
           (None, w1) \<Rightarrow> (Inl (ApiError 500 ''Failed to delete video from Cloudinary''), w1)
         | (Some videoDeleteResponse, w1) \<Rightarrow> (Inr (), w1))
      else (Inr (), w))"

definition delete_thumbnail_asset :: "env \<Rightarrow> video \<Rightarrow> world \<Rightarrow> (error + unit) \<times> world" where
  "delete_thumbnail_asset e v w =
     (if thumbnailPublicId v \<noteq> [] then
        (case deleteFromCloudinary e (thumbnailPublicId v) w of
           (None, w1) \<Rightarrow> (Inl (ApiError 500 ''Failed to delete thumbnail from Cloudinary''), w1)
         | (Some thumbnailDeleteResponse, w1) \<Rightarrow> (Inr (), w1))
      else (Inr (), w))"

fun deleteVideo :: "env \<Rightarrow> objectid \<Rightarrow> param \<Rightarrow> world \<Rightarrow> (error + reply) \<times> world" where
  "deleteVideo e uid Absent w = (Inl (ApiError 400 ''Video ID is required''), w)"
| "deleteVideo e uid (Malformed s) w =
     (if s = [] then (Inl (ApiError 400 ''Video ID is required''), w)
      else (Inl (ApiError 400 ''Invalid Video ID format''), w))"
| "deleteVideo e uid (Oid videoId) w =
     (case Video_findById videoId w of
        None \<Rightarrow> (Inl (ApiError 404 ''Video not found''), w)
      | Some v \<Rightarrow>
          if uid \<noteq> owner v
          then (Inl (ApiError 403 ''You are not authorized to delete this video''), w)
          else
            (case delete_video_asset e v w of
               (Inl err, w1) \<Rightarrow> (Inl err, w1)
             | (Inr u1, w1) \<Rightarrow>
                 (case delete_thumbnail_asset e v w1 of
                    (Inl err, w2) \<Rightarrow> (Inl err, w2)
                  | (Inr u2, w2) \<Rightarrow>
                      (Inr (Reply 200 (ApiResponse 200 P_object ''Video deleted successfully'')),
                       Video_findByIdAndDelete videoId w2))))"

fun togglePublishStatus :: "objectid \<Rightarrow> param \<Rightarrow> world \<Rightarrow> (error + reply) \<times> world" where
  "togglePublishStatus uid Absent w = (Inl (ApiError 400 ''Video ID is required''), w)"
| "togglePublishStatus uid (Malformed s) w =
     (if s = [] then (Inl (ApiError 400 ''Video ID is required''), w)
      else (Inl (ApiError 400 ''Invalid Video ID format''), w))"
| "togglePublishStatus uid (Oid videoId) w =
     (case Video_findById videoId w of
        None \<Rightarrow> (Inl (ApiError 404 ''Video not found''), w)
      | Some v \<Rightarrow>
          if uid \<noteq> owner v
          then (Inl (ApiError 403 ''You are not authorized to update this video''), w)
          else
            let v' = v\<lparr>isPublished := \<not> isPublished v\<rparr>
            in (Inr (Reply 200 (ApiResponse 200 (P_video v')
                      (''Video has been '' @
                       (if isPublished v' then ''published'' else ''unpublished'') @
                       '' successfully''))),
                Video_save v' w))"

subsection \<open>comment.controller.js\<close>

definition Comment_findById :: "objectid \<Rightarrow> world \<Rightarrow> comment option" where
  "Comment_findById i w = find (\<lambda>d. c_id d = i) (comment_docs w)"

definition Comment_save :: "comment \<Rightarrow> world \<Rightarrow> world" where
  "Comment_save c w =
     w\<lparr>comment_docs := map (\<lambda>d. if c_id d = c_id c then c else d) (comment_docs w)\<rparr>"

fun updateComment ::
  "objectid \<Rightarrow> param \<Rightarrow> string option \<Rightarrow> world \<Rightarrow> (error + reply) \<times> world" where
  "updateComment uid (Oid commentId) content w =
     (case content of
        None \<Rightarrow> (Inl (ApiError 400 ''Content and a valid comment ID are required''), w)
      | Some newContent \<Rightarrow>
          if newContent = []
          then (Inl (ApiError 400 ''Content and a valid comment ID are required''), w)
          else
            (case Comment_findById commentId w of
               None \<Rightarrow> (Inl (ApiError 404 ''Comment not found''), w)
             | Some c \<Rightarrow>
                 if c_owner c \<noteq> uid
                 then (Inl (ApiError 403 ''You are not authorized to update this comment''), w)
                 else
                   let c' = c\<lparr>c_content := newContent\<rparr>
                   in (Inr (Reply 200 (ApiResponse 200 (P_comment c')
                             ''Comment updated successfully'')),
                       Comment_save c' w)))"
| "updateComment uid commentId content w =
     (Inl (ApiError 400 ''Content and a valid comment ID are required''), w)"

text \<open>
  \<open>deleteComment\<close> removes the comment and pulls its id from the \<open>comments\<close> array of
  the video it belongs to (\<open>Video.findByIdAndUpdate\<close> with \<open>$pull\<close>, which changes the
  first video with that id, if any).
\<close>

fun pull_comment :: "objectid \<Rightarrow> objectid \<Rightarrow> video list \<Rightarrow> video list" where
  "pull_comment vid cid [] = []"
| "pull_comment vid cid (v # vs) =
     (if v_id v = vid then v\<lparr>comments := filter (\<lambda>x. x \<noteq> cid) (comments v)\<rparr> # vs
      else v # pull_comment vid cid vs)"

fun deleteComment :: "objectid \<Rightarrow> param \<Rightarrow> world \<Rightarrow> (error + reply) \<times> world" where
  "deleteComment uid (Oid commentId) w =
     (case Comment_findById commentId w of
        None \<Rightarrow> (Inl (ApiError 404 ''Comment not found''), w)
      | Some c \<Rightarrow>
          if c_owner c \<noteq> uid
          then (Inl (ApiError 403 ''You are not authorized to delete this comment''), w)
          else
            (Inr (Reply 200 (ApiResponse 200 P_object ''Comment deleted successfully'')),
             w\<lparr>comment_docs := remove_first (\<lambda>d. c_id d = commentId) (comment_docs w),
               videos := pull_comment (c_video c) commentId (videos w)\<rparr>))"
| "deleteComment uid commentId w = (Inl (ApiError 400 ''Invalid comment ID''), w)"

subsection \<open>tweet.controller.js\<close>

definition Tweet_findById :: "objectid \<Rightarrow> world \<Rightarrow> tweet option" where
  "Tweet_findById i w = find (\<lambda>d. t_id d = i) (tweets w)"

text \<open>
  \<open>getUserTweets\<close>: the tweets of the owner, newest first (the order among tweets of
  one instant is the database's; here it is that of a stable sort).
\<close>

fun getUserTweets :: "param \<Rightarrow> world \<Rightarrow> error + reply" where
  "getUserTweets (Oid userId) w =
     (let found = rev (sort_key t_createdAt (filter (\<lambda>t. t_owner t = userId) (tweets w)))
      in if length found = 0
         then Inl (ApiError 404 ''No tweets found for this user'')
         else Inr (Reply 200 (ApiResponse 200 (P_tweets found)
                     ''User tweets fetched successfully'')))"
| "getUserTweets userId w = Inl (ApiError 400 ''Invalid user ID'')"

text \<open>
  \<open>updateTweet\<close>: the body of the handler is a TODO comment. It returns without a
  reply (\<open>None\<close>) and without an error.
\<close>

definition updateTweet ::
  "objectid \<Rightarrow> param \<Rightarrow> string option \<Rightarrow> world \<Rightarrow> (error + reply) option \<times> world" where
  "updateTweet uid tweetId content w = (None, w)"

fun deleteTweet :: "objectid \<Rightarrow> param \<Rightarrow> world \<Rightarrow> (error + reply) \<times> world" where
  "deleteTweet uid (Oid tweetId) w =
     (case Tweet_findById tweetId w of
        None \<Rightarrow> (Inl (ApiError 404 ''Tweet not found''), w)
      | Some t \<Rightarrow>
          if t_owner t \<noteq> uid
          then (Inl (ApiError 403 ''You are not authorized to delete this tweet''), w)
          else
            (Inr (Reply 200 (ApiResponse 200 P_object ''Tweet deleted successfully'')),
             w\<lparr>tweets := remove_first (\<lambda>d. t_id d = tweetId) (tweets w)\<rparr>))"
| "deleteTweet uid tweetId w = (Inl (ApiError 400 ''Invalid tweet ID''), w)"

subsection \<open>like.controller.js\<close>

text \<open>\<open>Like.countDocuments({video: videoId})\<close>.\<close>

definition Like_count_video :: "objectid \<Rightarrow> world \<Rightarrow> nat" where
  "Like_count_video videoId w = length (filter (\<lambda>l. l_video l = Some videoId) (like_docs w))"

definition Like_create_video :: "objectid \<Rightarrow> objectid \<Rightarrow> world \<Rightarrow> world" where
  "Like_create_video uid videoId w =
     w\<lparr>like_docs := like_docs w @
          [\<lparr>l_id = next_id w, likedBy = uid, l_video = Some videoId,
            l_comment = None, l_tweet = None\<rparr>],
       next_id := Suc (next_id w)\<rparr>"

definition Like_findOneAndDelete_video :: "objectid \<Rightarrow> objectid \<Rightarrow> world \<Rightarrow> world" where
  "Like_findOneAndDelete_video uid videoId w =
     w\<lparr>like_docs :=
          remove_first (\<lambda>l. likedBy l = uid \<and> l_video l = Some videoId) (like_docs w)\<rparr>"

text \<open>
  \<open>toggleVideoLike\<close>: \<open>video.likes.includes(userId)\<close> decides; an unlike filters every
  entry of the user out of the array and deletes one Like document, a like pushes the
  user and creates a Like document; then the video is saved and the Like documents of
  the video are counted.
\<close>

fun toggleVideoLike :: "objectid \<Rightarrow> param \<Rightarrow> world \<Rightarrow> (error + reply) \<times> world" where
  "toggleVideoLike userId (Oid videoId) w =
     (case Video_findById videoId w of
        None \<Rightarrow> (Inl (ApiError 404 ''Video not found''), w)
      | Some v \<Rightarrow>
          let alreadyLiked = (userId \<in> set (likes v));
              v' = (if alreadyLiked then v\<lparr>likes := filter (\<lambda>l. l \<noteq> userId) (likes v)\<rparr>
                    else v\<lparr>likes := likes v @ [userId]\<rparr>);
              w1 = (if alreadyLiked then Like_findOneAndDelete_video userId videoId w
                    else Like_create_video userId videoId w);
              w2 = Video_save v' w1;
              likesCount = Like_count_video videoId w2
          in (Inr (Reply 200 (ApiResponse 200
                     (P_like_status (v_id v') likesCount (\<not> alreadyLiked))
                     (''Video has been '' @ (if alreadyLiked then ''unliked'' else ''liked'') @
                      '' successfully''))),
              w2))"
| "toggleVideoLike userId videoId w = (Inl (ApiError 400 ''Invalid video ID''), w)"

text \<open>\<open>getLikedVideos\<close>: the videos whose \<open>likes\<close> array holds the user.\<close>

definition getLikedVideos :: "objectid \<Rightarrow> world \<Rightarrow> error + reply" where
  "getLikedVideos userId w =
     (let likedVideos = filter (\<lambda>v. userId \<in> set (likes v)) (videos w)
      in if length likedVideos = 0
         then Inr (Reply 200 (ApiResponse 200 (P_videos []) ''No liked videos found''))
         else Inr (Reply 200 (ApiResponse 200 (P_videos likedVideos)
                     ''Liked videos fetched successfully'')))"

subsection \<open>subscription.controller.js\<close>

definition Subscription_findOne :: "objectid \<Rightarrow> objectid \<Rightarrow> world \<Rightarrow> subscription option" where
  "Subscription_findOne s c w =
     find (\<lambda>d. subscriber d = s \<and> channel d = c) (subscriptions w)"

fun toggleSubscription :: "objectid \<Rightarrow> param \<Rightarrow> world \<Rightarrow> (error + reply) \<times> world" where
  "toggleSubscription subscriberId (Oid channelId) w =
     (if channelId \<notin> set (users w) then (Inl (ApiError 404 ''Channel not found''), w)
      else
        (case Subscription_findOne subscriberId channelId w of
           Some existingSubscription \<Rightarrow>
             (Inr (Reply 200 (ApiResponse 200 P_object
                     ''Successfully unsubscribed from the channel'')),
              w\<lparr>subscriptions :=
                   remove_first (\<lambda>d. s_id d = s_id existingSubscription) (subscriptions w)\<rparr>)
         | None \<Rightarrow>
             let newSubscription =
                   \<lparr>s_id = next_id w, subscriber = subscriberId, channel = channelId\<rparr>
             in (Inr (Reply 201 (ApiResponse 201 (P_subscription newSubscription)
                        ''Successfully subscribed to the channel'')),
                 w\<lparr>subscriptions := subscriptions w @ [newSubscription],
                   next_id := Suc (next_id w)\<rparr>)))"
| "toggleSubscription subscriberId channelId w = (Inl (ApiError 400 ''Invalid channel ID''), w)"

subsection \<open>playlist.controller.js and dashboard.controller.js\<close>

fun getUserPlaylists :: "param \<Rightarrow> world \<Rightarrow> error + reply" where
  "getUserPlaylists (Oid userId) w =
     (let found = filter (\<lambda>p. p_owner p = userId) (playlists w)
      in if length found = 0
         then Inr (Reply 200 (ApiResponse 200 (P_playlists []) ''No playlists found''))
         else Inr (Reply 200 (ApiResponse 200 (P_playlists found)
                     ''Playlists fetched successfully'')))"
| "getUserPlaylists userId w = Inl (ApiError 400 ''Invalid user ID'')"

fun getChannelVideos :: "param \<Rightarrow> world \<Rightarrow> error + reply" where
  "getChannelVideos (Oid channelId) w =
     (if channelId \<notin> set (users w) then Inl (ApiError 404 ''Channel not found'')
      else
        let found = rev (sort_key createdAt (filter (\<lambda>v. owner v = channelId) (videos w)))
        in if length found = 0
           then Inr (Reply 200 (ApiResponse 200 (P_videos [])
                       ''No videos found for this channel''))
           else Inr (Reply 200 (ApiResponse 200 (P_videos found)
                       ''Channel videos fetched successfully'')))"
| "getChannelVideos channelId w = Inl (ApiError 400 ''Invalid channel ID'')"

subsection \<open>The error envelope\<close>

text \<open>
  Modelled from the spec: the status code of the error envelope that a handler's error
  is translated to (asyncHandler.js, ApiError.js and the error middleware are not among
  the sources). Section 6 of the specification gives 400 to a validation failure, an
  out-of-range length included, and section 7 gives 500 to an upstream failure; an
  \<open>ApiError\<close> carries its own code.
\<close>

fun status_of :: "error \<Rightarrow> nat" where
  "status_of (ApiError c m) = c"
| "status_of (ValidationError m) = 400"
| "status_of (FsError m) = 500"

subsection \<open>A concrete scenario\<close>

text \<open>
  A gateway that stores every file but \<open>/tmp/broken\<close> and deletes every asset but
  \<open>abc\<close>; a cast that reads the decimal numerals, with a sign and surrounded by white
  space or not; and a database engine that runs the stages of a listing pipeline over the
  documents and cuts the page as the pagination plugin does. The engine reads the text of
  a search as a literal without regard to the case of the ASCII letters (the scenario has
  no search with an operator of regular expressions), sorts on the scalar fields of a video
  and keeps the order on any other field.
\<close>

definition is_digit :: "char \<Rightarrow> bool" where
  "is_digit c = (48 \<le> (of_char c :: nat) \<and> (of_char c :: nat) \<le> 57)"

definition digits_value :: "string \<Rightarrow> int" where
  "digits_value s = foldl (\<lambda>n c. 10 * n + (int (of_char c) - 48)) 0 s"

definition demo_cast :: "string \<Rightarrow> int option" where
  "demo_cast s =
     (let t = trim s in
      if s = [] then None
      else if t = [] then Some 0
      else if list_all is_digit t then Some (digits_value t)
      else if hd t = CHR ''-'' \<and> tl t \<noteq> [] \<and> list_all is_digit (tl t)
      then Some (- digits_value (tl t))
      else if hd t = CHR ''+'' \<and> tl t \<noteq> [] \<and> list_all is_digit (tl t)
      then Some (digits_value (tl t))
      else None)"

text \<open>The lower case of an ASCII letter: the code of the capital with the bit of 32 set.\<close>

definition lower :: "char \<Rightarrow> char" where
  "lower c =
     (if 65 \<le> (of_char c :: nat) \<and> (of_char c :: nat) \<le> 90
      then Char (digit0 c) (digit1 c) (digit2 c) (digit3 c) (digit4 c) True (digit6 c) (digit7 c)
      else c)"

fun starts_with :: "string \<Rightarrow> string \<Rightarrow> bool" where
  "starts_with [] ys = True"
| "starts_with (x # xs) [] = False"
| "starts_with (x # xs) (y # ys) = (x = y \<and> starts_with xs ys)"

fun occurs_in :: "string \<Rightarrow> string \<Rightarrow> bool" where
  "occurs_in s [] = (s = [])"
| "occurs_in s (y # ys) = (starts_with s (y # ys) \<or> occurs_in s ys)"

definition matches_text :: "string \<Rightarrow> video \<Rightarrow> bool" where
  "matches_text q v =
     (occurs_in (map lower q) (map lower (title v))
      \<or> occurs_in (map lower q) (map lower (description v)))"

definition sort_docs :: "string \<Rightarrow> video list \<Rightarrow> video list" where
  "sort_docs f docs =
     (if f = ''createdAt'' then sort_key createdAt docs
      else if f = ''views'' then sort_key views docs
      else if f = ''duration'' then sort_key duration docs
      else if f = ''_id'' then sort_key v_id docs
      else if f = ''owner'' then sort_key owner docs
      else if f = ''isPublished'' then sort_key isPublished docs
      else if f = ''title'' then sort_key title docs
      else if f = ''description'' then sort_key description docs
      else if f = ''videoFile'' then sort_key videoFile docs
      else if f = ''thumbnail'' then sort_key thumbnail docs
      else if f = ''videoPublicId'' then sort_key videoPublicId docs
      else if f = ''thumbnailPublicId'' then sort_key thumbnailPublicId docs
      else docs)"

fun sorts_on :: "string \<Rightarrow> bool" where
  "sorts_on f =
     (f \<in> set [''createdAt'', ''views'', ''duration'', ''_id'', ''owner'', ''isPublished'',
               ''title'', ''description'', ''videoFile'', ''thumbnail'', ''videoPublicId'',
               ''thumbnailPublicId''])"

fun run_stage :: "stage \<Rightarrow> video list \<Rightarrow> video list" where
  "run_stage (Match_text q) docs = filter (matches_text q) docs"
| "run_stage (Match_owner i) docs = filter (\<lambda>v. owner v = i) docs"
| "run_stage (Sort f dir) docs =
     (if dir = 1 \<or> \<not> sorts_on f then sort_docs f docs else rev (sort_docs f docs))"
| "run_stage Lookup_owner docs = docs"
| "run_stage AddFields_owner docs = docs"
| "run_stage Project_card docs = docs"

text \<open>
  The plugin takes the limit 10 for a limit that is not positive and the page 1 for a
  page that is not a positive number, and counts one page for an empty result.
\<close>

definition demo_paginate :: "stage list \<Rightarrow> paginate_options \<Rightarrow> video list \<Rightarrow> page option" where
  "demo_paginate ps os docs =
     (let found = fold run_stage ps docs;
          lim = (case o_limit os of Num l \<Rightarrow> if 0 < l then nat l else 10 | NaN \<Rightarrow> 10);
          pg = (case o_page os of Num n \<Rightarrow> if 0 < n then nat n else 1 | NaN \<Rightarrow> 1)
      in Some \<lparr>pg_videos = take lim (drop ((pg - 1) * lim) found),
               totalDocs = length found, pg_limit = int lim, pg_page = int pg,
               totalPages = (if found = [] then 1 else (length found + lim - 1) div lim)\<rparr>)"

definition demo_env :: env where
  "demo_env =
     \<lparr>uuidv4 = (\<lambda>n. ''id'' @ replicate n (CHR ''+'')),
      gw_upload = (\<lambda>p i. if p = ''/tmp/broken'' then None
                           else Some \<lparr>url = ''http://cdn/'' @ i, public_id = i\<rparr>),
      gw_destroy = (\<lambda>i k. if i = ''abc'' then None else Some ''ok''),
      aggregatePaginate = demo_paginate,
      castNumber = demo_cast\<rparr>"

definition demo_video :: video where
  "demo_video =
     \<lparr>v_id = 1, videoFile = ''http://cdn/v1'', videoPublicId = ''abc'',
      thumbnail = ''http://cdn/t1'', thumbnailPublicId = ''def'', title = ''First video'',
      description = ''The first video of user 10'', duration = 60, views = 0,
      isPublished = True, likes = [], comments = [5], owner = 10, createdAt = 100\<rparr>"

definition demo_video2 :: video where
  "demo_video2 =
     \<lparr>v_id = 2, videoFile = ''http://cdn/v2'', videoPublicId = ''vid2'',
      thumbnail = ''http://cdn/t2'', thumbnailPublicId = ''thumb2'', title = ''Second video'',
      description = ''The first video of user 20'', duration = 30, views = 3,
      isPublished = True, likes = [10, 20], comments = [], owner = 20, createdAt = 200\<rparr>"

definition demo_world :: world where
  "demo_world =
     \<lparr>users = [10, 20, 30],
      videos = [demo_video, demo_video2],
      comment_docs = [\<lparr>c_id = 5, c_content = ''Nice'', c_video = 1, c_owner = 10, c_likes = []\<rparr>],
      tweets = [\<lparr>t_id = 7, t_content = ''Hello'', t_owner = 10, t_replyTo = None,
                 t_createdAt = 50\<rparr>],
      like_docs = [\<lparr>l_id = 8, likedBy = 10, l_video = Some 2, l_comment = None, l_tweet = None\<rparr>,
                   \<lparr>l_id = 9, likedBy = 20, l_video = Some 2, l_comment = None, l_tweet = None\<rparr>],
      subscriptions = [],
      playlists = [],
      next_id = 100, now = 1000,
      files = {''/tmp/v.mp4'', ''/tmp/t.png''},
      calls = [], uuid_calls = 0\<rparr>"

text \<open>The same world before anything was published.\<close>

definition empty_world :: world where
  "empty_world = demo_world\<lparr>videos := [], comment_docs := [], tweets := [], like_docs := []\<rparr>"

definition no_query :: list_query where
  "no_query = \<lparr>q_page = None, q_limit = None, q_query = None, q_sortBy = None,
                q_sortType = None, q_userId = Absent\<rparr>"

subsection \<open>Observing a run\<close>

text \<open>The gateway calls a handler made: those logged in \<open>w'\<close> after those of \<open>w\<close>.\<close>

definition new_calls :: "world \<Rightarrow> world \<Rightarrow> gateway_call list" where
  "new_calls w w' = drop (length (calls w)) (calls w')"

text \<open>
  A call of \<open>uploader.destroy\<close> with the resource type \<open>video\<close>: what
  \<open>deleteFromCloudinary\<close> issues, and \<open>deleteImageFromCloudinary\<close> never does.
\<close>

fun is_video_destroy :: "gateway_call \<Rightarrow> bool" where
  "is_video_destroy (Destroy publicId k) = (k = Video_kind)"
| "is_video_destroy (Upload p k i) = False"

subsection \<open>Observing subscriptions and likes\<close>

text \<open>The number of Subscription documents of a subscriber for a channel.\<close>

definition pair_count :: "objectid \<Rightarrow> objectid \<Rightarrow> world \<Rightarrow> nat" where
  "pair_count s c w =
     length (filter (\<lambda>d. subscriber d = s \<and> channel d = c) (subscriptions w))"

text \<open>
  The database keeps the \<open>_id\<close>s of a collection unique; here every id of the
  Subscription collection was drawn from the supply of fresh ids.
\<close>

definition subs_wf :: "world \<Rightarrow> bool" where
  "subs_wf w =
     (distinct (map s_id (subscriptions w))
      \<and> list_all (\<lambda>d. s_id d < next_id w) (subscriptions w))"

text \<open>No two Subscription documents have the same subscriber and channel.\<close>

definition no_duplicate_pairs :: "world \<Rightarrow> bool" where
  "no_duplicate_pairs w = distinct (map (\<lambda>d. (subscriber d, channel d)) (subscriptions w))"

text \<open>Requests to \<open>toggleSubscription\<close>, each handled to its end before the next.\<close>

fun run_toggles :: "(objectid \<times> param) list \<Rightarrow> world \<Rightarrow> world" where
  "run_toggles [] w = w"
| "run_toggles ((subscriberId, channelId) # rs) w =
     run_toggles rs (snd (toggleSubscription subscriberId channelId w))"

text \<open>The \<open>likes\<close> array of a video, and the Like documents of a user for a video.\<close>

definition video_likes :: "objectid \<Rightarrow> world \<Rightarrow> objectid list" where
  "video_likes videoId w = (case Video_findById videoId w of None \<Rightarrow> [] | Some v \<Rightarrow> likes v)"

definition user_like_docs :: "objectid \<Rightarrow> objectid \<Rightarrow> world \<Rightarrow> nat" where
  "user_like_docs userId videoId w =
     length (filter (\<lambda>l. likedBy l = userId \<and> l_video l = Some videoId) (like_docs w))"

text \<open>
  The state that two concurrent likes of user 10 for video 2 can leave (section 5 of the
  specification): the user twice in the array, and two Like documents of the user.
\<close>

definition race_world :: world where
  "race_world =
     demo_world\<lparr>videos := [demo_video, demo_video2\<lparr>likes := [10, 10]\<rparr>],
                like_docs :=
                  [\<lparr>l_id = 8, likedBy = 10, l_video = Some 2, l_comment = None, l_tweet = None\<rparr>,
                   \<lparr>l_id = 9, likedBy = 10, l_video = Some 2, l_comment = None, l_tweet = None\<rparr>]\<rparr>"

text \<open>The scenario after user 10 subscribed to the channel of user 20.\<close>

definition subscribed_world :: world where
  "subscribed_world =
     demo_world\<lparr>subscriptions := [\<lparr>s_id = 100, subscriber = 10, channel = 20\<rparr>],
                next_id := 101\<rparr>"

section \<open>Properties\<close>

subsection \<open>The media store\<close>

text \<open>
  Where a file exists at the non-empty path, \<open>uploadOnCloudinary\<close> returns without
  raising, the file is gone afterwards whether the upload succeeded or failed, and the
  result is the gateway's response when the upload succeeded and \<open>null\<close> (\<open>None\<close>)
  when it failed.
\<close>

lemma uploadOnCloudinary_unlinks:
  assumes "localFilePath \<noteq> []" and "localFilePath \<in> files w"
  shows "localFilePath \<notin> files (snd (uploadOnCloudinary e localFilePath w))
       \<and> fst (uploadOnCloudinary e localFilePath w)
           = Inr (gw_upload e localFilePath (CHR ''$'' # uuidv4 e (uuid_calls w)))
       \<and> (gw_upload e localFilePath (CHR ''$'' # uuidv4 e (uuid_calls w)) = None
            \<longrightarrow> fst (uploadOnCloudinary e localFilePath w) = Inr None)"
  using assms
  by (simp add: uploadOnCloudinary_def unlinkSync_def Let_def split: option.splits)

lemma uploadOnCloudinary_success_example:
  "uploadOnCloudinary demo_env ''/tmp/v.mp4'' demo_world
     = (Inr (Some \<lparr>url = ''http://cdn/$id'', public_id = ''$id''\<rparr>),
        demo_world\<lparr>files := {''/tmp/t.png''}, uuid_calls := 1,
                    calls := [Upload ''/tmp/v.mp4'' Auto_kind ''$id'']\<rparr>)"
  by (simp add: uploadOnCloudinary_def unlinkSync_def Let_def demo_world_def demo_env_def)

text \<open>
  The same on a failing upload: the gateway rejects \<open>/tmp/broken\<close>, the file is
  unlinked and the result is \<open>null\<close>.
\<close>

lemma uploadOnCloudinary_failure_example:
  "uploadOnCloudinary demo_env ''/tmp/broken'' (demo_world\<lparr>files := {''/tmp/broken''}\<rparr>)
     = (Inr None,
        demo_world\<lparr>files := {}, uuid_calls := 1,
                    calls := [Upload ''/tmp/broken'' Auto_kind ''$id'']\<rparr>)"
  by (simp add: uploadOnCloudinary_def unlinkSync_def Let_def demo_world_def demo_env_def)

text \<open>
  Where no file exists at the non-empty path, the function raises, whatever the gateway
  answers: the \<open>unlinkSync\<close> of the \<open>catch\<close> block is itself outside any
  \<open>try\<close>, it throws ENOENT, and the exception leaves \<open>uploadOnCloudinary\<close>
  in place of the \<open>null\<close>.
\<close>

lemma uploadOnCloudinary_missing_file:
  assumes "localFilePath \<noteq> []" and "localFilePath \<notin> files w"
  shows "fst (uploadOnCloudinary e localFilePath w) = Inl (FsError ''ENOENT'')"
  using assms
  by (simp add: uploadOnCloudinary_def unlinkSync_def Let_def split: option.splits)

text \<open>
  C7 (the code at a path without a file). No file exists at \<open>/tmp/broken\<close> and the
  gateway rejects the upload: \<open>uploadOnCloudinary\<close> does not return \<open>null\<close>, it
  raises the ENOENT of \<open>unlinkSync\<close>.
\<close>

theorem uploadOnCloudinary_raises_without_file:
  "''/tmp/broken'' \<notin> files demo_world
   \<and> gw_upload demo_env ''/tmp/broken'' ''$id'' = None
   \<and> uploadOnCloudinary demo_env ''/tmp/broken'' demo_world
       = (Inl (FsError ''ENOENT''),
          demo_world\<lparr>uuid_calls := 1, calls := [Upload ''/tmp/broken'' Auto_kind ''$id'']\<rparr>)"
  by (simp add: uploadOnCloudinary_def unlinkSync_def Let_def demo_world_def demo_env_def)

subsection \<open>Tweets\<close>

text \<open>
  C8. \<open>updateTweet\<close> reads and changes nothing and sends no reply: for every request
  and every state, it returns no outcome and the state it was given.
\<close>

theorem updateTweet_no_effect:
  "updateTweet uid tweetId content w = (None, w)"
  by (simp add: updateTweet_def)

subsection \<open>Deleting a video\<close>

text \<open>
  C3. When the owner deletes an existing video whose \<open>videoPublicId\<close> is not empty and
  the gateway's deletion of that asset gives no result, \<open>deleteVideo\<close> fails with the
  error 500, the Video collection is unchanged and the video is still found.
\<close>

theorem deleteVideo_gateway_failure:
  assumes "Video_findById videoId w = Some v"
    and "uid = owner v"
    and "videoPublicId v \<noteq> []"
    and "gw_destroy e (videoPublicId v) Video_kind = None"
  shows "fst (deleteVideo e uid (Oid videoId) w)
           = Inl (ApiError 500 ''Failed to delete video from Cloudinary'')
       \<and> videos (snd (deleteVideo e uid (Oid videoId) w)) = videos w
       \<and> Video_findById videoId (snd (deleteVideo e uid (Oid videoId) w)) = Some v"
  using assms
  by (simp add: delete_video_asset_def deleteFromCloudinary_def Video_findById_def)

theorem deleteVideo_gateway_failure_witness:
  "Video_findById 1 demo_world = Some demo_video
   \<and> 10 = owner demo_video
   \<and> videoPublicId demo_video = ''abc''
   \<and> gw_destroy demo_env ''abc'' Video_kind = None
   \<and> fst (deleteVideo demo_env 10 (Oid 1) demo_world)
        = Inl (ApiError 500 ''Failed to delete video from Cloudinary'')
   \<and> Video_findById 1 (snd (deleteVideo demo_env 10 (Oid 1) demo_world)) = Some demo_video"
proof -
  have f: "Video_findById 1 demo_world = Some demo_video"
    by (simp add: Video_findById_def demo_world_def demo_video_def)
  have o: "10 = owner demo_video" by (simp add: demo_video_def)
  have p: "videoPublicId demo_video \<noteq> []" by (simp add: demo_video_def)
  have p': "videoPublicId demo_video = ''abc''" by (simp add: demo_video_def)
  have g: "gw_destroy demo_env (videoPublicId demo_video) Video_kind = None"
    by (simp add: demo_env_def demo_video_def)
  have g': "gw_destroy demo_env ''abc'' Video_kind = None"
    by (simp add: demo_env_def)
  from deleteVideo_gateway_failure [OF f o p g] f o p' g' show ?thesis
    by blast
qed

subsection \<open>Listings\<close>

text \<open>
  C9. For a well-formed user id that owns no tweet, \<open>getUserTweets\<close> fails with the
  error 404 (whether or not the id is that of a user, and whatever else the user owns).
  The other listings reply with the status 200 and an empty list in their empty case:
  \<open>getUserPlaylists\<close> for an id that owns no playlist, \<open>getChannelVideos\<close> for an
  existing channel that owns no video, \<open>getLikedVideos\<close> for a user in no \<open>likes\<close>
  array.
\<close>

theorem empty_listings:
  "((\<forall>t \<in> set (tweets w). t_owner t \<noteq> userId) \<longrightarrow>
      getUserTweets (Oid userId) w = Inl (ApiError 404 ''No tweets found for this user''))
   \<and> ((\<forall>p \<in> set (playlists w). p_owner p \<noteq> userId) \<longrightarrow>
      getUserPlaylists (Oid userId) w
        = Inr (Reply 200 (ApiResponse 200 (P_playlists []) ''No playlists found'')))
   \<and> (userId \<in> set (users w) \<and> (\<forall>v \<in> set (videos w). owner v \<noteq> userId) \<longrightarrow>
      getChannelVideos (Oid userId) w
        = Inr (Reply 200 (ApiResponse 200 (P_videos []) ''No videos found for this channel'')))
   \<and> ((\<forall>v \<in> set (videos w). userId \<notin> set (likes v)) \<longrightarrow>
      getLikedVideos userId w
        = Inr (Reply 200 (ApiResponse 200 (P_videos []) ''No liked videos found'')))"
proof -
  have t: "getUserTweets (Oid userId) w = Inl (ApiError 404 ''No tweets found for this user'')"
    if "\<forall>t \<in> set (tweets w). t_owner t \<noteq> userId"
  proof -
    from that have "filter (\<lambda>t. t_owner t = userId) (tweets w) = []"
      by (simp add: filter_empty_conv)
    then show ?thesis by simp
  qed
  have p: "getUserPlaylists (Oid userId) w
             = Inr (Reply 200 (ApiResponse 200 (P_playlists []) ''No playlists found''))"
    if "\<forall>p \<in> set (playlists w). p_owner p \<noteq> userId"
  proof -
    from that have "filter (\<lambda>p. p_owner p = userId) (playlists w) = []"
      by (simp add: filter_empty_conv)
    then show ?thesis by simp
  qed
  have v: "getChannelVideos (Oid userId) w
             = Inr (Reply 200 (ApiResponse 200 (P_videos []) ''No videos found for this channel''))"
    if "userId \<in> set (users w)" and "\<forall>v \<in> set (videos w). owner v \<noteq> userId"
  proof -
    from that(2) have "filter (\<lambda>v. owner v = userId) (videos w) = []"
      by (simp add: filter_empty_conv)
    with that(1) show ?thesis by simp
  qed
  have l: "getLikedVideos userId w
             = Inr (Reply 200 (ApiResponse 200 (P_videos []) ''No liked videos found''))"
    if "\<forall>v \<in> set (videos w). userId \<notin> set (likes v)"
  proof -
    from that have "filter (\<lambda>v. userId \<in> set (likes v)) (videos w) = []"
      by (simp add: filter_empty_conv)
    then show ?thesis by (simp add: getLikedVideos_def)
  qed
  from t p v l show ?thesis by blast
qed

text \<open>
  In the scenario: user 20 owns a video and likes one, and 99 is the id of no user; both
  own no tweet and get the 404. User 30 owns and likes nothing and gets the three empty
  lists.
\<close>

theorem empty_listings_witness:
  "filter (\<lambda>t. t_owner t = 20) (tweets demo_world) = []
   \<and> getUserTweets (Oid 20) demo_world = Inl (ApiError 404 ''No tweets found for this user'')
   \<and> 99 \<notin> set (users demo_world)
   \<and> filter (\<lambda>t. t_owner t = 99) (tweets demo_world) = []
   \<and> getUserTweets (Oid 99) demo_world = Inl (ApiError 404 ''No tweets found for this user'')
   \<and> filter (\<lambda>p. p_owner p = 30) (playlists demo_world) = []
   \<and> getUserPlaylists (Oid 30) demo_world
        = Inr (Reply 200 (ApiResponse 200 (P_playlists []) ''No playlists found''))
   \<and> 30 \<in> set (users demo_world)
   \<and> filter (\<lambda>v. owner v = 30) (videos demo_world) = []
   \<and> getChannelVideos (Oid 30) demo_world
        = Inr (Reply 200 (ApiResponse 200 (P_videos []) ''No videos found for this channel''))
   \<and> filter (\<lambda>v. 30 \<in> set (likes v)) (videos demo_world) = []
   \<and> getLikedVideos 30 demo_world
        = Inr (Reply 200 (ApiResponse 200 (P_videos []) ''No liked videos found''))"
proof -
  have t20: "\<forall>t \<in> set (tweets demo_world). t_owner t \<noteq> 20" by (simp add: demo_world_def)
  have t99: "\<forall>t \<in> set (tweets demo_world). t_owner t \<noteq> 99" by (simp add: demo_world_def)
  have u99: "99 \<notin> set (users demo_world)" by (simp add: demo_world_def)
  have p30: "\<forall>p \<in> set (playlists demo_world). p_owner p \<noteq> 30" by (simp add: demo_world_def)
  have u30: "30 \<in> set (users demo_world)" by (simp add: demo_world_def)
  have v30: "\<forall>v \<in> set (videos demo_world). owner v \<noteq> 30"
    by (simp add: demo_world_def demo_video_def demo_video2_def)
  have l30: "\<forall>v \<in> set (videos demo_world). 30 \<notin> set (likes v)"
    by (simp add: demo_world_def demo_video_def demo_video2_def)
  note a = empty_listings [of demo_world 20]
  note b = empty_listings [of demo_world 99]
  note c = empty_listings [of demo_world 30]
  from a t20 have r20:
    "getUserTweets (Oid 20) demo_world = Inl (ApiError 404 ''No tweets found for this user'')"
    by blast
  from b t99 have r99:
    "getUserTweets (Oid 99) demo_world = Inl (ApiError 404 ''No tweets found for this user'')"
    by blast
  from c p30 u30 v30 l30 have r30:
    "getUserPlaylists (Oid 30) demo_world
       = Inr (Reply 200 (ApiResponse 200 (P_playlists []) ''No playlists found''))"
    "getChannelVideos (Oid 30) demo_world
       = Inr (Reply 200 (ApiResponse 200 (P_videos []) ''No videos found for this channel''))"
    "getLikedVideos 30 demo_world
       = Inr (Reply 200 (ApiResponse 200 (P_videos []) ''No liked videos found''))"
    by blast+
  have f: "filter (\<lambda>t. t_owner t = 20) (tweets demo_world) = []"
    "filter (\<lambda>t. t_owner t = 99) (tweets demo_world) = []"
    "filter (\<lambda>p. p_owner p = 30) (playlists demo_world) = []"
    "filter (\<lambda>v. owner v = 30) (videos demo_world) = []"
    "filter (\<lambda>v. 30 \<in> set (likes v)) (videos demo_world) = []"
    using t20 t99 p30 v30 l30 by (simp_all add: filter_empty_conv)
  from r20 r99 r30 f u99 u30 show ?thesis by blast
qed

subsection \<open>The thumbnail of a deleted video\<close>

text \<open>Every gateway call of \<open>deleteVideo\<close> is a deletion of the resource type \<open>video\<close>.\<close>

lemma deleteVideo_calls:
  "\<exists>cs. calls (snd (deleteVideo e uid p w)) = calls w @ cs \<and> list_all is_video_destroy cs"
proof (cases p)
  case Absent
  then show ?thesis by simp
next
  case (Malformed s)
  then show ?thesis by simp
next
  case (Oid i)
  then show ?thesis
    by (auto simp: delete_video_asset_def delete_thumbnail_asset_def deleteFromCloudinary_def
          Video_findByIdAndDelete_def split: option.splits)
qed

text \<open>
  C10. No run of \<open>deleteVideo\<close> calls the gateway with the resource type \<open>image\<close>
  (the call of \<open>deleteImageFromCloudinary\<close>); and when the owner deletes a video with
  a thumbnail public id and the deletion of the video asset did not fail, the calls are
  that deletion (if the video has a public id) followed by the deletion of
  \<open>thumbnailPublicId\<close> with the resource type \<open>video\<close>, as \<open>deleteFromCloudinary\<close>
  issues it.
\<close>

theorem deleteVideo_thumbnail_as_video:
  "list_all is_video_destroy (new_calls w (snd (deleteVideo e uid p w)))
   \<and> (Video_findById videoId w = Some v \<and> uid = owner v \<and> thumbnailPublicId v \<noteq> []
        \<and> (videoPublicId v = [] \<or> gw_destroy e (videoPublicId v) Video_kind \<noteq> None)
      \<longrightarrow> new_calls w (snd (deleteVideo e uid (Oid videoId) w))
            = (if videoPublicId v = [] then [] else [Destroy (videoPublicId v) Video_kind])
              @ [Destroy (thumbnailPublicId v) Video_kind]
          \<and> Destroy (thumbnailPublicId v) Image_kind
              \<notin> set (new_calls w (snd (deleteVideo e uid (Oid videoId) w))))"
proof -
  have "list_all is_video_destroy (new_calls w (snd (deleteVideo e uid p w)))"
    using deleteVideo_calls [of e uid p w] by (auto simp: new_calls_def)
  moreover have "new_calls w (snd (deleteVideo e uid (Oid videoId) w))
            = (if videoPublicId v = [] then [] else [Destroy (videoPublicId v) Video_kind])
              @ [Destroy (thumbnailPublicId v) Video_kind]"
    if "Video_findById videoId w = Some v" "uid = owner v" "thumbnailPublicId v \<noteq> []"
      "videoPublicId v = [] \<or> gw_destroy e (videoPublicId v) Video_kind \<noteq> None"
    using that
    by (auto simp: new_calls_def delete_video_asset_def delete_thumbnail_asset_def
          deleteFromCloudinary_def Video_findByIdAndDelete_def split: option.splits)
  ultimately show ?thesis by auto
qed

theorem deleteVideo_thumbnail_as_video_witness:
  "Video_findById 2 demo_world = Some demo_video2 \<and> 20 = owner demo_video2
   \<and> thumbnailPublicId demo_video2 = ''thumb2''
   \<and> gw_destroy demo_env (videoPublicId demo_video2) Video_kind = Some ''ok''
   \<and> new_calls demo_world (snd (deleteVideo demo_env 20 (Oid 2) demo_world))
       = [Destroy ''vid2'' Video_kind, Destroy ''thumb2'' Video_kind]
   \<and> list_all is_video_destroy (new_calls demo_world (snd (deleteVideo demo_env 20 (Oid 2) demo_world)))"
proof -
  have f: "Video_findById 2 demo_world = Some demo_video2"
    by (simp add: Video_findById_def demo_world_def demo_video_def demo_video2_def)
  have o: "20 = owner demo_video2" by (simp add: demo_video2_def)
  have t: "thumbnailPublicId demo_video2 = ''thumb2''" by (simp add: demo_video2_def)
  have v: "videoPublicId demo_video2 = ''vid2''" by (simp add: demo_video2_def)
  have g: "gw_destroy demo_env (videoPublicId demo_video2) Video_kind = Some ''ok''"
    by (simp add: demo_env_def demo_video2_def)
  from deleteVideo_thumbnail_as_video [of demo_world demo_env 20 "Oid 2" 2 demo_video2] f o t v g
  show ?thesis by simp
qed

subsection \<open>Publishing a video\<close>

text \<open>
  C6. With both files present and uploaded (the gateway answers with a URL and a public
  id) and a duration that is not falsy: publishing with a title of 3 characters and a
  description of 10 characters, and a duration that casts to a number, succeeds with the
  status 201 and appends the document to the Video collection; publishing with a title of
  2 characters fails in the validation of \<open>Video.create\<close>, before the document is
  stored, and the error envelope of a validation error carries the status 400.
\<close>

theorem publishAVideo_length_bounds:
  assumes "videoPath \<noteq> []" and "thumbnailPath \<noteq> []" and "videoPath \<noteq> thumbnailPath"
    and "videoPath \<in> files w" and "thumbnailPath \<in> files w"
    and "gw_upload e videoPath (CHR ''$'' # uuidv4 e (uuid_calls w)) = Some vr"
    and "gw_upload e thumbnailPath (CHR ''$'' # uuidv4 e (Suc (uuid_calls w))) = Some tr"
    and "url vr \<noteq> []" and "public_id vr \<noteq> []" and "url tr \<noteq> []" and "public_id tr \<noteq> []"
    and "\<not> falsy_field dv"
  shows "(length t = 3 \<and> length d = 10 \<and> to_number e dv = Some dur \<longrightarrow>
            (\<exists>doc. fst (publishAVideo e uid (Some t) (Some d) (Some dv)
                          (Some videoPath) (Some thumbnailPath) w)
                      = Inr (Reply 201 (ApiResponse 200 (P_video doc)
                               ''Video published successfully''))
                  \<and> title doc = t \<and> description doc = d \<and> duration doc = dur
                  \<and> owner doc = uid
                  \<and> videos (snd (publishAVideo e uid (Some t) (Some d) (Some dv)
                                   (Some videoPath) (Some thumbnailPath) w))
                      = videos w @ [doc]))
       \<and> (length t = 2 \<and> d \<noteq> [] \<longrightarrow>
            fst (publishAVideo e uid (Some t) (Some d) (Some dv)
                   (Some videoPath) (Some thumbnailPath) w)
              = Inl (ValidationError ''Video validation failed'')
            \<and> status_of (ValidationError ''Video validation failed'') = 400
            \<and> videos (snd (publishAVideo e uid (Some t) (Some d) (Some dv)
                             (Some videoPath) (Some thumbnailPath) w))
                = videos w)"
proof -
  obtain w1 where u1: "uploadOnCloudinary e videoPath w = (Inr (Some vr), w1)"
    and w1: "thumbnailPath \<in> files w1" "uuid_calls w1 = Suc (uuid_calls w)" "videos w1 = videos w"
    using assms by (simp add: uploadOnCloudinary_def unlinkSync_def Let_def)
  obtain w2 where u2: "uploadOnCloudinary e thumbnailPath w1 = (Inr (Some tr), w2)"
    and w2: "videos w2 = videos w"
    using assms w1 by (simp add: uploadOnCloudinary_def unlinkSync_def Let_def)
  show ?thesis
    using assms(1,2,8-12) w2
    by (auto simp: publishAVideo_def u1 u2 Video_create_def Let_def validate_video_def
          validate_title_def validate_description_def split: option.splits)
qed

lemma demo_files:
  "''/tmp/v.mp4'' \<noteq> []" "''/tmp/t.png'' \<noteq> []" "''/tmp/v.mp4'' \<noteq> ''/tmp/t.png''"
  "''/tmp/v.mp4'' \<in> files demo_world" "''/tmp/t.png'' \<in> files demo_world"
  by (simp_all add: demo_world_def)

lemma demo_uploads:
  "gw_upload demo_env ''/tmp/v.mp4'' (CHR ''$'' # uuidv4 demo_env (uuid_calls demo_world))
     = Some \<lparr>url = ''http://cdn/$id'', public_id = ''$id''\<rparr>"
  "gw_upload demo_env ''/tmp/t.png'' (CHR ''$'' # uuidv4 demo_env (Suc (uuid_calls demo_world)))
     = Some \<lparr>url = ''http://cdn/$id+'', public_id = ''$id+''\<rparr>"
  by (simp_all add: demo_world_def demo_env_def)

lemma demo_casts:
  "demo_cast ''42'' = Some 42" "demo_cast ''0'' = Some 0" "demo_cast ''soon'' = None"
  by (simp_all add: demo_cast_def trim_def is_space_def is_digit_def digits_value_def)

lemma demo_durations:
  "to_number demo_env (JString ''42'') = Some 42"
  "to_number demo_env (JString ''0'') = Some 0"
  "to_number demo_env (JString ''soon'') = None"
  by (simp_all add: demo_env_def demo_casts)

theorem publishAVideo_length_bounds_witness:
  "length ''abc'' = 3 \<and> length ''0123456789'' = 10 \<and> length ''ab'' = 2
   \<and> to_number demo_env (JString ''42'') = Some 42
   \<and> fst (publishAVideo demo_env 10 (Some ''abc'') (Some ''0123456789'') (Some (JString ''42''))
            (Some ''/tmp/v.mp4'') (Some ''/tmp/t.png'') demo_world)
       = Inr (Reply 201 (ApiResponse 200
           (P_video \<lparr>v_id = 100, videoFile = ''http://cdn/$id'', videoPublicId = ''$id'',
              thumbnail = ''http://cdn/$id+'', thumbnailPublicId = ''$id+'', title = ''abc'',
              description = ''0123456789'', duration = 42, views = 0, isPublished = True,
              likes = [], comments = [], owner = 10, createdAt = 1000\<rparr>)
           ''Video published successfully''))
   \<and> fst (publishAVideo demo_env 10 (Some ''ab'') (Some ''0123456789'') (Some (JString ''42''))
            (Some ''/tmp/v.mp4'') (Some ''/tmp/t.png'') demo_world)
       = Inl (ValidationError ''Video validation failed'')
   \<and> videos (snd (publishAVideo demo_env 10 (Some ''ab'') (Some ''0123456789'')
            (Some (JString ''42'')) (Some ''/tmp/v.mp4'') (Some ''/tmp/t.png'') demo_world))
       = videos demo_world"
proof -
  have r: "url \<lparr>url = ''http://cdn/$id'', public_id = ''$id''\<rparr> \<noteq> []"
    "public_id \<lparr>url = ''http://cdn/$id'', public_id = ''$id''\<rparr> \<noteq> []"
    "url \<lparr>url = ''http://cdn/$id+'', public_id = ''$id+''\<rparr> \<noteq> []"
    "public_id \<lparr>url = ''http://cdn/$id+'', public_id = ''$id+''\<rparr> \<noteq> []"
    "\<not> falsy_field (JString ''42'')"
    by simp_all
  note th = publishAVideo_length_bounds [OF demo_files demo_uploads r, of _ _ 42 10]
  have ok: "fst (publishAVideo demo_env 10 (Some ''abc'') (Some ''0123456789'')
            (Some (JString ''42'')) (Some ''/tmp/v.mp4'') (Some ''/tmp/t.png'') demo_world)
       = Inr (Reply 201 (ApiResponse 200
           (P_video \<lparr>v_id = 100, videoFile = ''http://cdn/$id'', videoPublicId = ''$id'',
              thumbnail = ''http://cdn/$id+'', thumbnailPublicId = ''$id+'', title = ''abc'',
              description = ''0123456789'', duration = 42, views = 0, isPublished = True,
              likes = [], comments = [], owner = 10, createdAt = 1000\<rparr>)
           ''Video published successfully''))"
    by (simp add: publishAVideo_def uploadOnCloudinary_def unlinkSync_def Let_def
          Video_create_def validate_video_def validate_title_def validate_description_def
          demo_casts demo_world_def demo_env_def)
  from th [of "''ab''" "''0123456789''"] ok demo_durations(1) show ?thesis by simp
qed

text \<open>
  The duration of a form is a text: the text \<open>0\<close> is not falsy and the video is stored
  with the duration 0, where the number 0 of a JSON body is refused as a missing field;
  a text that is no number fails in \<open>Video.create\<close>, after the uploads.
\<close>

lemma publishAVideo_duration_examples:
  "\<exists>doc. publishAVideo demo_env 10 (Some ''abc'') (Some ''0123456789'') (Some (JString ''0''))
            (Some ''/tmp/v.mp4'') (Some ''/tmp/t.png'') demo_world
          = (Inr (Reply 201 (ApiResponse 200 (P_video doc) ''Video published successfully'')),
             demo_world\<lparr>videos := videos demo_world @ [doc], next_id := 101, files := {},
                         uuid_calls := 2,
                         calls := [Upload ''/tmp/v.mp4'' Auto_kind ''$id'',
                                   Upload ''/tmp/t.png'' Auto_kind ''$id+'']\<rparr>)
          \<and> duration doc = 0"
  "fst (publishAVideo demo_env 10 (Some ''abc'') (Some ''0123456789'') (Some (JNumber 0))
          (Some ''/tmp/v.mp4'') (Some ''/tmp/t.png'') demo_world)
     = Inl (ApiError 400 ''Title, description, and duration are required'')"
  "fst (publishAVideo demo_env 10 (Some ''abc'') (Some ''0123456789'') (Some (JString ''soon''))
          (Some ''/tmp/v.mp4'') (Some ''/tmp/t.png'') demo_world)
     = Inl (ValidationError ''Video validation failed'')"
  by (simp_all add: publishAVideo_def uploadOnCloudinary_def unlinkSync_def Let_def
        Video_create_def validate_video_def validate_title_def validate_description_def
        demo_casts demo_world_def demo_env_def)

text \<open>
  When both files of the request have one path, the first upload unlinks the file and the
  second call of \<open>uploadOnCloudinary\<close> finds none: its exception ends the handler.
\<close>

lemma publishAVideo_one_path_example:
  "fst (publishAVideo demo_env 10 (Some ''abc'') (Some ''0123456789'') (Some (JString ''42''))
          (Some ''/tmp/v.mp4'') (Some ''/tmp/v.mp4'') demo_world)
     = Inl (FsError ''ENOENT'')"
  by (simp add: publishAVideo_def uploadOnCloudinary_def unlinkSync_def Let_def
        demo_world_def demo_env_def)

subsection \<open>The empty listing\<close>

text \<open>
  When the page has no documents, \<open>getAllVideos\<close> issues the reply of the empty branch
  (status 300, body \<open>{message: []}\<close>) first and the success reply second; otherwise it
  issues the success reply only.
\<close>

lemma getAllVideos_empty_replies:
  assumes "list_pipeline q = Inr pipeline"
    and "no_videos (aggregatePaginate e pipeline (list_options q) (videos w))"
  shows "getAllVideos e q w
           = Inr [Reply 300 Message_list,
                  Reply 200 (ApiResponse 200
                    (P_page (aggregatePaginate e pipeline (list_options q) (videos w)))
                    ''Videos fetched successfully'')]"
  using assms by (simp add: getAllVideos_def Let_def)

lemma getAllVideos_nonempty_replies:
  assumes "list_pipeline q = Inr pipeline"
    and "\<not> no_videos (aggregatePaginate e pipeline (list_options q) (videos w))"
  shows "getAllVideos e q w
           = Inr [Reply 200 (ApiResponse 200
                    (P_page (aggregatePaginate e pipeline (list_options q) (videos w)))
                    ''Videos fetched successfully'')]"
  using assms by (simp add: getAllVideos_def Let_def)

text \<open>
  C4 (the code at an empty listing). On a database without videos and a request without
  parameters the first reply issued, the one the client receives, has the status 300 and
  the body \<open>{message: []}\<close>; the reply with the status 200 and the empty page comes
  second.
\<close>

theorem getAllVideos_empty_listing:
  "getAllVideos demo_env no_query empty_world
     = Inr [Reply 300 Message_list,
            Reply 200 (ApiResponse 200
              (P_page (Some \<lparr>pg_videos = [], totalDocs = 0, pg_limit = 10, pg_page = 1,
                            totalPages = 1\<rparr>))
              ''Videos fetched successfully'')]
   \<and> map_sum id delivered (getAllVideos demo_env no_query empty_world)
       = Inr (Some (Reply 300 Message_list))"
proof -
  have p: "list_pipeline no_query
             = Inr [Sort ''createdAt'' (- 1), Lookup_owner, AddFields_owner, Project_card]"
    by (simp add: list_pipeline_def no_query_def)
  have a: "aggregatePaginate demo_env
             [Sort ''createdAt'' (- 1), Lookup_owner, AddFields_owner, Project_card]
             (list_options no_query) (videos empty_world)
           = Some \<lparr>pg_videos = [], totalDocs = 0, pg_limit = 10, pg_page = 1, totalPages = 1\<rparr>"
    by (simp add: demo_env_def demo_paginate_def sort_docs_def Let_def list_options_def
          no_query_def empty_world_def)
  have n: "no_videos (aggregatePaginate demo_env
             [Sort ''createdAt'' (- 1), Lookup_owner, AddFields_owner, Project_card]
             (list_options no_query) (videos empty_world))"
    by (simp add: a)
  from getAllVideos_empty_replies [OF p n] a show ?thesis by simp
qed

text \<open>
  A listing that is not empty gets the one reply: the two videos of the scenario, the
  newest first, and the videos of user 10 in ascending order of their views.
\<close>

lemma getAllVideos_listing_examples:
  "getAllVideos demo_env no_query demo_world
     = Inr [Reply 200 (ApiResponse 200
              (P_page (Some \<lparr>pg_videos = [demo_video2, demo_video], totalDocs = 2,
                              pg_limit = 10, pg_page = 1, totalPages = 1\<rparr>))
              ''Videos fetched successfully'')]"
  "getAllVideos demo_env
       (no_query\<lparr>q_userId := Oid 10, q_sortBy := Some ''views'', q_sortType := Some ''asc'',
                  q_query := Some ''FIRST''\<rparr>) demo_world
     = Inr [Reply 200 (ApiResponse 200
              (P_page (Some \<lparr>pg_videos = [demo_video], totalDocs = 1,
                              pg_limit = 10, pg_page = 1, totalPages = 1\<rparr>))
              ''Videos fetched successfully'')]"
  by (simp_all add: getAllVideos_def list_pipeline_def list_options_def no_query_def
        demo_env_def demo_paginate_def sort_docs_def matches_text_def lower_def Let_def
        demo_world_def demo_video_def demo_video2_def)

subsection \<open>Malformed identifiers\<close>

text \<open>
  The guards on the identifier of a request: \<open>!videoId\<close> and
  \<open>!mongoose.Types.ObjectId.isValid(id)\<close> end the handler with the error 400 and leave
  the state as it was.
\<close>

lemma invalid_ids:
  "falsy_param p \<Longrightarrow> deleteVideo e uid p w = (Inl (ApiError 400 ''Video ID is required''), w)"
  "falsy_param p \<Longrightarrow>
     updateVideo e uid p t d f w = (Inl (ApiError 400 ''Video ID is required''), w)"
  "falsy_param p \<Longrightarrow>
     togglePublishStatus uid p w = (Inl (ApiError 400 ''Video ID is required''), w)"
  "\<not> falsy_param p \<Longrightarrow> \<not> isValid p \<Longrightarrow>
     deleteVideo e uid p w = (Inl (ApiError 400 ''Invalid Video ID format''), w)"
  "\<not> falsy_param p \<Longrightarrow> \<not> isValid p \<Longrightarrow>
     updateVideo e uid p t d f w = (Inl (ApiError 400 ''Invalid Video ID format''), w)"
  "\<not> falsy_param p \<Longrightarrow> \<not> isValid p \<Longrightarrow>
     togglePublishStatus uid p w = (Inl (ApiError 400 ''Invalid Video ID format''), w)"
  "falsy_str content \<or> \<not> isValid p \<Longrightarrow>
     updateComment uid p content w
       = (Inl (ApiError 400 ''Content and a valid comment ID are required''), w)"
  "\<not> isValid p \<Longrightarrow> deleteComment uid p w = (Inl (ApiError 400 ''Invalid comment ID''), w)"
  "\<not> isValid p \<Longrightarrow> deleteTweet uid p w = (Inl (ApiError 400 ''Invalid tweet ID''), w)"
  "\<not> isValid p \<Longrightarrow> toggleVideoLike uid p w = (Inl (ApiError 400 ''Invalid video ID''), w)"
  "\<not> isValid p \<Longrightarrow> toggleSubscription uid p w = (Inl (ApiError 400 ''Invalid channel ID''), w)"
  "\<not> isValid p \<Longrightarrow> getUserTweets p w = Inl (ApiError 400 ''Invalid user ID'')"
  "\<not> isValid p \<Longrightarrow> getUserPlaylists p w = Inl (ApiError 400 ''Invalid user ID'')"
  "\<not> isValid p \<Longrightarrow> getChannelVideos p w = Inl (ApiError 400 ''Invalid channel ID'')"
  by (cases p; cases content; simp)+

text \<open>
  A title or description of white space only counts as not given: \<open>updateVideo\<close>
  leaves the field as it is.
\<close>

lemma trim_examples:
  "trim [CHR 0xA0] = []" "trim '' Taken over  '' = ''Taken over''"
  "set_title (Some [CHR 0xA0, CHR 0x09]) demo_video = demo_video"
  by (simp_all add: trim_def is_space_def)

subsection \<open>Ownership\<close>

text \<open>
  The handlers that compare the authenticated user with the owner: a request of another
  user fails with the error 403 and the state is unchanged.
\<close>

lemma owner_guards:
  assumes "uid \<noteq> ownerId"
  shows "Video_findById i w = Some v \<Longrightarrow> owner v = ownerId \<Longrightarrow>
           deleteVideo e uid (Oid i) w
             = (Inl (ApiError 403 ''You are not authorized to delete this video''), w)"
    and "Video_findById i w = Some v \<Longrightarrow> owner v = ownerId \<Longrightarrow>
           togglePublishStatus uid (Oid i) w
             = (Inl (ApiError 403 ''You are not authorized to update this video''), w)"
    and "Comment_findById i w = Some c \<Longrightarrow> c_owner c = ownerId \<Longrightarrow> content \<noteq> [] \<Longrightarrow>
           updateComment uid (Oid i) (Some content) w
             = (Inl (ApiError 403 ''You are not authorized to update this comment''), w)"
    and "Comment_findById i w = Some c \<Longrightarrow> c_owner c = ownerId \<Longrightarrow>
           deleteComment uid (Oid i) w
             = (Inl (ApiError 403 ''You are not authorized to delete this comment''), w)"
    and "Tweet_findById i w = Some t \<Longrightarrow> t_owner t = ownerId \<Longrightarrow>
           deleteTweet uid (Oid i) w
             = (Inl (ApiError 403 ''You are not authorized to delete this tweet''), w)"
  using assms by auto

text \<open>\<open>updateVideo\<close> makes no such comparison: its outcome is the same for every user.\<close>

lemma updateVideo_any_user:
  "updateVideo e uid videoId b_title b_description file w
     = updateVideo e uid' videoId b_title b_description file w"
  by (cases videoId) simp_all

text \<open>
  C1 (the code at a request of another user). Video 1 belongs to user 10; the update of
  its title by user 20 succeeds with the status 200 and the stored document carries the
  new title.
\<close>

theorem updateVideo_by_another_user:
  "Video_findById 1 demo_world = Some demo_video \<and> owner demo_video = 10
   \<and> fst (updateVideo demo_env 20 (Oid 1) (Some ''Taken over'') None None demo_world)
       = Inr (Reply 200 (ApiResponse 200 (P_video (demo_video\<lparr>title := ''Taken over''\<rparr>))
                ''Video updated successfully''))
   \<and> Video_findById 1
        (snd (updateVideo demo_env 20 (Oid 1) (Some ''Taken over'') None None demo_world))
       = Some (demo_video\<lparr>title := ''Taken over''\<rparr>)"
  by (simp add: Video_findById_def Video_save_def update_thumbnail_def modified_paths_valid_def
        validate_title_def trim_def is_space_def demo_world_def demo_video_def demo_video2_def)

subsection \<open>Removing the first match\<close>

lemma set_remove_first: "set (remove_first P xs) \<subseteq> set xs"
  by (induction xs) auto

lemma distinct_map_remove_first:
  "distinct (map f xs) \<Longrightarrow> distinct (map f (remove_first P xs))"
proof (induction xs)
  case Nil
  then show ?case by simp
next
  case (Cons x xs)
  have "f x \<notin> f ` set (remove_first P xs)" if "f x \<notin> f ` set xs"
    using that set_remove_first [of P xs] by blast
  with Cons show ?case by auto
qed

lemma list_all_remove_first: "list_all Q xs \<Longrightarrow> list_all Q (remove_first P xs)"
  by (induction xs) auto

lemma remove_first_by_id:
  "distinct (map f xs) \<Longrightarrow> d \<in> set xs \<Longrightarrow> remove_first (\<lambda>x. f x = f d) xs = remove1 d xs"
proof (induction xs)
  case Nil
  then show ?case by simp
next
  case (Cons x xs)
  show ?case
  proof (cases "x = d")
    case True
    then show ?thesis by simp
  next
    case False
    with Cons.prems have "d \<in> set xs" by simp
    moreover from this Cons.prems have "f x \<noteq> f d" by force
    ultimately show ?thesis using Cons False by simp
  qed
qed

lemma length_filter_remove1:
  "d \<in> set xs \<Longrightarrow> P d \<Longrightarrow> length (filter P (remove1 d xs)) = length (filter P xs) - 1"
proof (induction xs)
  case Nil
  then show ?case by simp
next
  case (Cons x xs)
  show ?case
  proof (cases "x = d")
    case True
    with Cons.prems show ?thesis by simp
  next
    case False
    with Cons.prems have "d \<in> set (filter P xs)" by simp
    then have "0 < length (filter P xs)" by (rule length_pos_if_in_set)
    with Cons False show ?thesis by simp
  qed
qed

lemma find_Some_mem: "find P xs = Some d \<Longrightarrow> d \<in> set xs \<and> P d"
  by (induction xs) (auto split: if_splits)

subsection \<open>Subscriptions\<close>

text \<open>The two branches of \<open>toggleSubscription\<close> for an existing channel.\<close>

lemma toggle_unsubscribes:
  assumes "subs_wf w" and "c \<in> set (users w)" and "Subscription_findOne s c w = Some d"
  shows "fst (toggleSubscription s (Oid c) w)
           = Inr (Reply 200 (ApiResponse 200 P_object
                    ''Successfully unsubscribed from the channel''))"
    and "subscriptions (snd (toggleSubscription s (Oid c) w)) = remove1 d (subscriptions w)"
    and "pair_count s c (snd (toggleSubscription s (Oid c) w)) = pair_count s c w - 1"
proof -
  from assms(3) have d: "d \<in> set (subscriptions w)" "subscriber d = s \<and> channel d = c"
    using find_Some_mem [of _ "subscriptions w" d] by (auto simp: Subscription_findOne_def)
  from assms(1) have dist: "distinct (map s_id (subscriptions w))" by (simp add: subs_wf_def)
  show "fst (toggleSubscription s (Oid c) w)
           = Inr (Reply 200 (ApiResponse 200 P_object
                    ''Successfully unsubscribed from the channel''))"
    using assms by simp
  show r: "subscriptions (snd (toggleSubscription s (Oid c) w)) = remove1 d (subscriptions w)"
    using assms remove_first_by_id [OF dist d(1)] by simp
  show "pair_count s c (snd (toggleSubscription s (Oid c) w)) = pair_count s c w - 1"
    unfolding pair_count_def r using d by (simp add: length_filter_remove1)
qed

lemma toggle_subscribes:
  assumes "c \<in> set (users w)" and "Subscription_findOne s c w = None"
  shows "fst (toggleSubscription s (Oid c) w)
           = Inr (Reply 201 (ApiResponse 201
                    (P_subscription \<lparr>s_id = next_id w, subscriber = s, channel = c\<rparr>)
                    ''Successfully subscribed to the channel''))"
    and "subscriptions (snd (toggleSubscription s (Oid c) w))
           = subscriptions w @ [\<lparr>s_id = next_id w, subscriber = s, channel = c\<rparr>]"
    and "pair_count s c (snd (toggleSubscription s (Oid c) w)) = 1"
proof -
  from assms(2) have none: "filter (\<lambda>d. subscriber d = s \<and> channel d = c) (subscriptions w) = []"
    by (auto simp: Subscription_findOne_def find_None_iff filter_empty_conv)
  show "fst (toggleSubscription s (Oid c) w)
           = Inr (Reply 201 (ApiResponse 201
                    (P_subscription \<lparr>s_id = next_id w, subscriber = s, channel = c\<rparr>)
                    ''Successfully subscribed to the channel''))"
    using assms by (simp add: Let_def)
  show "subscriptions (snd (toggleSubscription s (Oid c) w))
           = subscriptions w @ [\<lparr>s_id = next_id w, subscriber = s, channel = c\<rparr>]"
    using assms by (simp add: Let_def)
  then show "pair_count s c (snd (toggleSubscription s (Oid c) w)) = 1"
    by (simp add: pair_count_def none)
qed

text \<open>
  Each request keeps the ids of the collection unique and drawn, and keeps the collection
  free of two documents for one subscriber and channel; so does every sequence of requests.
\<close>

lemma toggle_preserves:
  assumes "subs_wf w" and "no_duplicate_pairs w"
  shows "subs_wf (snd (toggleSubscription s p w))
       \<and> no_duplicate_pairs (snd (toggleSubscription s p w))"
proof (cases p)
  case Absent
  with assms show ?thesis by simp
next
  case (Malformed x)
  with assms show ?thesis by simp
next
  case (Oid c)
  show ?thesis
  proof (cases "c \<in> set (users w)")
    case False
    with Oid assms show ?thesis by simp
  next
    case True
    show ?thesis
    proof (cases "Subscription_findOne s c w")
      case None
      then have fresh: "(s, c) \<notin> (\<lambda>d. (subscriber d, channel d)) ` set (subscriptions w)"
        by (auto simp: Subscription_findOne_def find_None_iff)
      from assms(1) have "next_id w \<notin> s_id ` set (subscriptions w)"
        by (auto simp: subs_wf_def list_all_iff)
      moreover from assms(1) have "list_all (\<lambda>d. s_id d < Suc (next_id w)) (subscriptions w)"
        by (auto simp: subs_wf_def list_all_iff)
      ultimately show ?thesis
        using assms Oid True None fresh
        by (simp add: Let_def subs_wf_def no_duplicate_pairs_def)
    next
      case (Some d)
      with assms Oid True show ?thesis
        by (simp add: subs_wf_def no_duplicate_pairs_def distinct_map_remove_first
              list_all_remove_first)
    qed
  qed
qed

lemma run_toggles_preserves:
  "subs_wf w \<Longrightarrow> no_duplicate_pairs w \<Longrightarrow>
     subs_wf (run_toggles rs w) \<and> no_duplicate_pairs (run_toggles rs w)"
proof (induction rs arbitrary: w)
  case Nil
  then show ?case by simp
next
  case (Cons r rs)
  obtain s p where r: "r = (s, p)" by (cases r)
  from toggle_preserves [OF Cons.prems, of s p] Cons.IH r show ?case by simp
qed

lemma distinct_map_filter_le_1:
  "distinct (map f xs) \<Longrightarrow> length (filter (\<lambda>d. f d = k) xs) \<le> 1"
proof (induction xs)
  case Nil
  then show ?case by simp
next
  case (Cons x xs)
  show ?case
  proof (cases "f x = k")
    case True
    from Cons.prems have "f x \<notin> f ` set xs" by simp
    with True have "\<forall>d \<in> set xs. f d \<noteq> k" by blast
    then have "filter (\<lambda>d. f d = k) xs = []"
      by (simp add: filter_empty_conv)
    with True show ?thesis by simp
  next
    case False
    with Cons show ?thesis by simp
  qed
qed

lemma no_duplicate_pairs_count: "no_duplicate_pairs w \<Longrightarrow> pair_count s c w \<le> 1"
  using distinct_map_filter_le_1 [of "\<lambda>d. (subscriber d, channel d)" "subscriptions w" "(s, c)"]
  by (simp add: no_duplicate_pairs_def pair_count_def)

text \<open>
  C5. For an existing channel \<open>c\<close>: if a Subscription document of \<open>s\<close> for \<open>c\<close>
  exists, \<open>toggleSubscription\<close> removes the one it found and adds none (status 200);
  if none exists, it appends exactly one (status 201); and from a state without two
  documents for one pair, no sequence of requests, each handled to its end before the
  next, leads to a state with more than one document for any pair.
\<close>

theorem toggleSubscription_at_most_one:
  "(subs_wf w \<and> c \<in> set (users w) \<and> Subscription_findOne s c w = Some d \<longrightarrow>
      fst (toggleSubscription s (Oid c) w)
        = Inr (Reply 200 (ApiResponse 200 P_object
                 ''Successfully unsubscribed from the channel''))
      \<and> subscriptions (snd (toggleSubscription s (Oid c) w)) = remove1 d (subscriptions w)
      \<and> pair_count s c (snd (toggleSubscription s (Oid c) w)) = pair_count s c w - 1)
   \<and> (c \<in> set (users w) \<and> Subscription_findOne s c w = None \<longrightarrow>
      fst (toggleSubscription s (Oid c) w)
        = Inr (Reply 201 (ApiResponse 201
                 (P_subscription \<lparr>s_id = next_id w, subscriber = s, channel = c\<rparr>)
                 ''Successfully subscribed to the channel''))
      \<and> subscriptions (snd (toggleSubscription s (Oid c) w))
          = subscriptions w @ [\<lparr>s_id = next_id w, subscriber = s, channel = c\<rparr>]
      \<and> pair_count s c (snd (toggleSubscription s (Oid c) w)) = 1)
   \<and> (subs_wf w \<and> no_duplicate_pairs w \<longrightarrow>
      no_duplicate_pairs (run_toggles rs w) \<and> pair_count s' c' (run_toggles rs w) \<le> 1)"
  using toggle_unsubscribes [of w c s d] toggle_subscribes [of c w s]
    run_toggles_preserves [of w rs] no_duplicate_pairs_count [of "run_toggles rs w" s' c']
  by blast

theorem toggleSubscription_at_most_one_witness:
  "subs_wf subscribed_world \<and> no_duplicate_pairs subscribed_world
   \<and> 20 \<in> set (users subscribed_world)
   \<and> Subscription_findOne 10 20 subscribed_world
       = Some \<lparr>s_id = 100, subscriber = 10, channel = 20\<rparr>
   \<and> subscriptions (snd (toggleSubscription 10 (Oid 20) subscribed_world)) = []
   \<and> pair_count 10 20 (snd (toggleSubscription 10 (Oid 20) subscribed_world)) = 0
   \<and> Subscription_findOne 10 20 demo_world = None
   \<and> subscriptions (snd (toggleSubscription 10 (Oid 20) demo_world))
       = [\<lparr>s_id = 100, subscriber = 10, channel = 20\<rparr>]
   \<and> pair_count 10 20 (snd (toggleSubscription 10 (Oid 20) demo_world)) = 1
   \<and> pair_count 10 20
        (run_toggles [(30, Oid 20), (10, Oid 20), (10, Oid 20)] subscribed_world) \<le> 1"
proof -
  have wf: "subs_wf subscribed_world"
    by (simp add: subs_wf_def subscribed_world_def demo_world_def)
  have nd: "no_duplicate_pairs subscribed_world"
    by (simp add: no_duplicate_pairs_def subscribed_world_def demo_world_def)
  have u: "20 \<in> set (users subscribed_world)" "20 \<in> set (users demo_world)"
    by (simp_all add: subscribed_world_def demo_world_def)
  have f: "Subscription_findOne 10 20 subscribed_world
             = Some \<lparr>s_id = 100, subscriber = 10, channel = 20\<rparr>"
    by (simp add: Subscription_findOne_def subscribed_world_def demo_world_def)
  have n: "Subscription_findOne 10 20 demo_world = None"
    by (simp add: Subscription_findOne_def demo_world_def)
  have s: "subscriptions subscribed_world = [\<lparr>s_id = 100, subscriber = 10, channel = 20\<rparr>]"
    "subscriptions demo_world = []" "next_id demo_world = 100"
    by (simp_all add: subscribed_world_def demo_world_def)
  have pc: "pair_count 10 20 subscribed_world = 1"
    by (simp add: pair_count_def s)
  note a = toggleSubscription_at_most_one
    [of subscribed_world 20 10 "\<lparr>s_id = 100, subscriber = 10, channel = 20\<rparr>"
        "[(30, Oid 20), (10, Oid 20), (10, Oid 20)]" 10 20]
  note b = toggleSubscription_at_most_one [of demo_world 20 10]
  from a b wf nd u f n s pc show ?thesis by simp
qed

subsection \<open>Video likes\<close>

text \<open>
  One request of \<open>toggleVideoLike\<close> on an existing video: the stored \<open>likes\<close> array
  and the Like collection afterwards.
\<close>

lemma find_save:
  "find (\<lambda>d. v_id d = i) xs = Some v \<Longrightarrow> v_id v' = i \<Longrightarrow>
     find (\<lambda>d. v_id d = i) (map (\<lambda>d. if v_id d = i then v' else d) xs) = Some v'"
  by (induction xs) (auto split: if_splits)

lemma toggleVideoLike_step:
  assumes "Video_findById i w = Some v"
  shows "Video_findById i (snd (toggleVideoLike u (Oid i) w))
           = Some (v\<lparr>likes := (if u \<in> set (likes v) then filter (\<lambda>l. l \<noteq> u) (likes v)
                                 else likes v @ [u])\<rparr>)"
    and "like_docs (snd (toggleVideoLike u (Oid i) w))
           = (if u \<in> set (likes v)
              then remove_first (\<lambda>l. likedBy l = u \<and> l_video l = Some i) (like_docs w)
              else like_docs w @ [\<lparr>l_id = next_id w, likedBy = u, l_video = Some i,
                                    l_comment = None, l_tweet = None\<rparr>])"
proof -
  from assms have id: "v_id v = i"
    using find_Some_mem [of "\<lambda>d. v_id d = i" "videos w" v] by (simp add: Video_findById_def)
  from assms have f: "find (\<lambda>d. v_id d = i) (videos w) = Some v"
    by (simp add: Video_findById_def)
  show "Video_findById i (snd (toggleVideoLike u (Oid i) w))
           = Some (v\<lparr>likes := (if u \<in> set (likes v) then filter (\<lambda>l. l \<noteq> u) (likes v)
                                 else likes v @ [u])\<rparr>)"
    using assms id
    by (simp add: Let_def Video_save_def Like_findOneAndDelete_video_def Like_create_video_def
          Video_findById_def find_save [OF f])
  show "like_docs (snd (toggleVideoLike u (Oid i) w))
           = (if u \<in> set (likes v)
              then remove_first (\<lambda>l. likedBy l = u \<and> l_video l = Some i) (like_docs w)
              else like_docs w @ [\<lparr>l_id = next_id w, likedBy = u, l_video = Some i,
                                    l_comment = None, l_tweet = None\<rparr>])"
    using assms
    by (simp add: Let_def Video_save_def Like_findOneAndDelete_video_def Like_create_video_def)
qed

lemma length_filter_neq: "length (filter (\<lambda>l. l \<noteq> u) xs) + count_list xs u = length xs"
  by (induction xs) auto

lemma length_filter_remove_first:
  assumes "\<exists>x \<in> set xs. P x" and "\<And>x. P x \<Longrightarrow> Q x"
  shows "Suc (length (filter Q (remove_first P xs))) = length (filter Q xs)"
  using assms(1)
proof (induction xs)
  case Nil
  then show ?case by simp
next
  case (Cons x xs)
  show ?case
  proof (cases "P x")
    case True
    with assms(2) show ?thesis by simp
  next
    case False
    with Cons show ?thesis by simp
  qed
qed

text \<open>
  If the array is as long as the Like documents of the video are many, and the user, when
  in the array, is there once and has a Like document for the video, then the same holds
  after the request.
\<close>

lemma toggleVideoLike_keeps_mirror:
  assumes "Video_findById i w = Some v"
    and "length (likes v) = Like_count_video i w"
    and "u \<in> set (likes v) \<longrightarrow> count_list (likes v) u = 1 \<and> 1 \<le> user_like_docs u i w"
  shows "length (video_likes i (snd (toggleVideoLike u (Oid i) w)))
           = Like_count_video i (snd (toggleVideoLike u (Oid i) w))"
    and "u \<in> set (video_likes i (snd (toggleVideoLike u (Oid i) w))) \<longrightarrow>
           count_list (video_likes i (snd (toggleVideoLike u (Oid i) w))) u = 1
           \<and> 1 \<le> user_like_docs u i (snd (toggleVideoLike u (Oid i) w))"
proof -
  note st = toggleVideoLike_step [OF assms(1), of u]
  show "length (video_likes i (snd (toggleVideoLike u (Oid i) w)))
           = Like_count_video i (snd (toggleVideoLike u (Oid i) w))"
  proof (cases "u \<in> set (likes v)")
    case False
    with assms(2) show ?thesis
      by (simp add: video_likes_def st Like_count_video_def del: toggleVideoLike.simps)
  next
    case True
    with assms(3) have c: "count_list (likes v) u = 1" and d: "1 \<le> user_like_docs u i w"
      by simp_all
    from d have "filter (\<lambda>l. likedBy l = u \<and> l_video l = Some i) (like_docs w) \<noteq> []"
      by (auto simp: user_like_docs_def)
    then have ex: "\<exists>x \<in> set (like_docs w). likedBy x = u \<and> l_video x = Some i"
      by (simp add: filter_empty_conv)
    have "Suc (length (filter (\<lambda>l. l_video l = Some i)
                 (remove_first (\<lambda>l. likedBy l = u \<and> l_video l = Some i) (like_docs w))))
            = length (filter (\<lambda>l. l_video l = Some i) (like_docs w))"
      by (rule length_filter_remove_first [OF ex]) simp
    moreover have "Suc (length (filter (\<lambda>l. l \<noteq> u) (likes v))) = length (likes v)"
      using length_filter_neq [of u "likes v"] c by simp
    ultimately show ?thesis
      using True assms(2) by (simp add: video_likes_def st Like_count_video_def del: toggleVideoLike.simps)
  qed
  show "u \<in> set (video_likes i (snd (toggleVideoLike u (Oid i) w))) \<longrightarrow>
           count_list (video_likes i (snd (toggleVideoLike u (Oid i) w))) u = 1
           \<and> 1 \<le> user_like_docs u i (snd (toggleVideoLike u (Oid i) w))"
  proof (cases "u \<in> set (likes v)")
    case True
    then show ?thesis by (simp add: video_likes_def st del: toggleVideoLike.simps)
  next
    case False
    then have "count_list (likes v) u = 0" by (simp add: count_list_0_iff)
    with False show ?thesis
      by (simp add: video_likes_def st user_like_docs_def del: toggleVideoLike.simps)
  qed
qed

text \<open>
  C2 (amended). For an existing video, one toggle flips whether the user is in the
  \<open>likes\<close> array and two toggles in sequence restore it; after the two toggles the array
  holds the same users as before: it is the original array when the user had not liked the
  video, and the original array with the user's entries removed and the user appended at
  the end when the user had. If the array was as long as the Like documents of the video
  are many and the user, when in the array, occurs there once and has a Like document for
  the video, then after each of the two toggles the length of the array equals the number
  of Like documents of the video.
\<close>

theorem toggleVideoLike_twice:
  assumes "Video_findById videoId w = Some v"
  shows "(u \<in> set (video_likes videoId (snd (toggleVideoLike u (Oid videoId) w)))
            \<longleftrightarrow> u \<notin> set (likes v))
       \<and> (u \<in> set (video_likes videoId
                     (snd (toggleVideoLike u (Oid videoId)
                        (snd (toggleVideoLike u (Oid videoId) w)))))
            \<longleftrightarrow> u \<in> set (likes v))
       \<and> video_likes videoId
            (snd (toggleVideoLike u (Oid videoId) (snd (toggleVideoLike u (Oid videoId) w))))
           = (if u \<in> set (likes v) then filter (\<lambda>l. l \<noteq> u) (likes v) @ [u] else likes v)
       \<and> set (video_likes videoId
            (snd (toggleVideoLike u (Oid videoId) (snd (toggleVideoLike u (Oid videoId) w)))))
           = set (likes v)
       \<and> (length (likes v) = Like_count_video videoId w
            \<and> (u \<in> set (likes v) \<longrightarrow>
                  count_list (likes v) u = 1 \<and> 1 \<le> user_like_docs u videoId w)
          \<longrightarrow> length (video_likes videoId (snd (toggleVideoLike u (Oid videoId) w)))
                = Like_count_video videoId (snd (toggleVideoLike u (Oid videoId) w))
              \<and> length (video_likes videoId
                   (snd (toggleVideoLike u (Oid videoId)
                      (snd (toggleVideoLike u (Oid videoId) w)))))
                = Like_count_video videoId
                   (snd (toggleVideoLike u (Oid videoId)
                      (snd (toggleVideoLike u (Oid videoId) w)))))"
proof -
  define w1 where "w1 = snd (toggleVideoLike u (Oid videoId) w)"
  define w2 where "w2 = snd (toggleVideoLike u (Oid videoId) w1)"
  let ?v1 = "v\<lparr>likes := (if u \<in> set (likes v) then filter (\<lambda>l. l \<noteq> u) (likes v)
                          else likes v @ [u])\<rparr>"
  have f1: "Video_findById videoId w1 = Some ?v1"
    unfolding w1_def by (rule toggleVideoLike_step(1) [OF assms])
  have l1: "video_likes videoId w1
              = (if u \<in> set (likes v) then filter (\<lambda>l. l \<noteq> u) (likes v) else likes v @ [u])"
    by (simp add: video_likes_def f1)
  have f2: "Video_findById videoId w2
              = Some (?v1\<lparr>likes := (if u \<in> set (likes ?v1)
                                      then filter (\<lambda>l. l \<noteq> u) (likes ?v1)
                                      else likes ?v1 @ [u])\<rparr>)"
    unfolding w2_def by (rule toggleVideoLike_step(1) [OF f1])
  have nf: "filter (\<lambda>l. l \<noteq> u) (likes v) = likes v" if "u \<notin> set (likes v)"
    using that by (auto simp: filter_id_conv)
  have l2: "video_likes videoId w2
              = (if u \<in> set (likes v) then filter (\<lambda>l. l \<noteq> u) (likes v) @ [u] else likes v)"
    by (simp add: video_likes_def f2 nf)
  have s2: "set (video_likes videoId w2) = set (likes v)"
    by (auto simp: l2)
  have m: "length (video_likes videoId w1) = Like_count_video videoId w1
           \<and> length (video_likes videoId w2) = Like_count_video videoId w2"
    if h: "length (likes v) = Like_count_video videoId w"
      "u \<in> set (likes v) \<longrightarrow> count_list (likes v) u = 1 \<and> 1 \<le> user_like_docs u videoId w"
  proof -
    note k1 = toggleVideoLike_keeps_mirror [OF assms h, folded w1_def]
    have a: "length (likes ?v1) = Like_count_video videoId w1"
      using k1(1) by (simp add: video_likes_def f1)
    have b: "u \<in> set (likes ?v1) \<longrightarrow>
               count_list (likes ?v1) u = 1 \<and> 1 \<le> user_like_docs u videoId w1"
      using k1(2) by (simp add: video_likes_def f1)
    from k1(1) toggleVideoLike_keeps_mirror(1) [OF f1 a b, folded w2_def]
    show ?thesis by simp
  qed
  have "(u \<in> set (video_likes videoId w1) \<longleftrightarrow> u \<notin> set (likes v))
       \<and> (u \<in> set (video_likes videoId w2) \<longleftrightarrow> u \<in> set (likes v))
       \<and> video_likes videoId w2
           = (if u \<in> set (likes v) then filter (\<lambda>l. l \<noteq> u) (likes v) @ [u] else likes v)
       \<and> set (video_likes videoId w2) = set (likes v)
       \<and> (length (likes v) = Like_count_video videoId w
            \<and> (u \<in> set (likes v) \<longrightarrow>
                  count_list (likes v) u = 1 \<and> 1 \<le> user_like_docs u videoId w)
          \<longrightarrow> length (video_likes videoId w1) = Like_count_video videoId w1
              \<and> length (video_likes videoId w2) = Like_count_video videoId w2)"
    using l1 l2 s2 m by auto
  then show ?thesis
    unfolding w2_def w1_def .
qed

theorem toggleVideoLike_twice_witness:
  "Video_findById 2 demo_world = Some demo_video2
   \<and> likes demo_video2 = [10, 20]
   \<and> length (likes demo_video2) = Like_count_video 2 demo_world
   \<and> count_list (likes demo_video2) 10 = 1 \<and> user_like_docs 10 2 demo_world = 1
   \<and> 10 \<notin> set (video_likes 2 (snd (toggleVideoLike 10 (Oid 2) demo_world)))
   \<and> video_likes 2
        (snd (toggleVideoLike 10 (Oid 2) (snd (toggleVideoLike 10 (Oid 2) demo_world))))
       = [20, 10]
   \<and> length (video_likes 2 (snd (toggleVideoLike 10 (Oid 2) demo_world)))
       = Like_count_video 2 (snd (toggleVideoLike 10 (Oid 2) demo_world))
   \<and> length (video_likes 2
        (snd (toggleVideoLike 10 (Oid 2) (snd (toggleVideoLike 10 (Oid 2) demo_world)))))
       = Like_count_video 2
        (snd (toggleVideoLike 10 (Oid 2) (snd (toggleVideoLike 10 (Oid 2) demo_world))))
   \<and> video_likes 2
        (snd (toggleVideoLike 30 (Oid 2) (snd (toggleVideoLike 30 (Oid 2) demo_world))))
       = [10, 20]"
proof -
  have f: "Video_findById 2 demo_world = Some demo_video2"
    by (simp add: Video_findById_def demo_world_def demo_video_def demo_video2_def)
  have l: "likes demo_video2 = [10, 20]" by (simp add: demo_video2_def)
  have n: "length (likes demo_video2) = Like_count_video 2 demo_world"
    by (simp add: Like_count_video_def demo_world_def demo_video2_def)
  have c: "count_list (likes demo_video2) 10 = 1" by (simp add: l)
  have d: "user_like_docs 10 2 demo_world = 1"
    by (simp add: user_like_docs_def demo_world_def)
  note a = toggleVideoLike_twice [OF f, of 10]
  note b = toggleVideoLike_twice [OF f, of 30]
  have h: "length (likes demo_video2) = Like_count_video 2 demo_world
           \<and> (10 \<in> set (likes demo_video2) \<longrightarrow>
                 count_list (likes demo_video2) 10 = 1 \<and> 1 \<le> user_like_docs 10 2 demo_world)"
    using n c d by simp
  from a h have a5:
    "length (video_likes 2 (snd (toggleVideoLike 10 (Oid 2) demo_world)))
       = Like_count_video 2 (snd (toggleVideoLike 10 (Oid 2) demo_world))"
    "length (video_likes 2
        (snd (toggleVideoLike 10 (Oid 2) (snd (toggleVideoLike 10 (Oid 2) demo_world)))))
       = Like_count_video 2
        (snd (toggleVideoLike 10 (Oid 2) (snd (toggleVideoLike 10 (Oid 2) demo_world))))"
    by blast+
  from a have a1: "10 \<notin> set (video_likes 2 (snd (toggleVideoLike 10 (Oid 2) demo_world)))"
    by (simp add: l del: toggleVideoLike.simps)
  from a have a3: "video_likes 2
        (snd (toggleVideoLike 10 (Oid 2) (snd (toggleVideoLike 10 (Oid 2) demo_world))))
       = [20, 10]"
    by (simp add: l del: toggleVideoLike.simps)
  from b have b3: "video_likes 2
        (snd (toggleVideoLike 30 (Oid 2) (snd (toggleVideoLike 30 (Oid 2) demo_world))))
       = [10, 20]"
    by (simp add: l del: toggleVideoLike.simps)
  from f l n c d a1 a3 a5 b3 show ?thesis by blast
qed

text \<open>
  C2 as stated fails twice. User 10 is the first of the two users who like video 2: after
  two toggles the array is \<open>[20, 10]\<close>, not \<open>[10, 20]\<close>. And in the state that two
  concurrent likes leave (the user twice in the array, two Like documents) the lengths
  agree before the toggle, while after it the array is empty and one Like document remains.
\<close>

theorem toggleVideoLike_twice_counterexample:
  "video_likes 2 demo_world = [10, 20]
   \<and> video_likes 2
        (snd (toggleVideoLike 10 (Oid 2) (snd (toggleVideoLike 10 (Oid 2) demo_world))))
       = [20, 10]
   \<and> video_likes 2
        (snd (toggleVideoLike 10 (Oid 2) (snd (toggleVideoLike 10 (Oid 2) demo_world))))
       \<noteq> video_likes 2 demo_world
   \<and> length (video_likes 2 race_world) = Like_count_video 2 race_world
   \<and> length (video_likes 2 (snd (toggleVideoLike 10 (Oid 2) race_world))) = 0
   \<and> Like_count_video 2 (snd (toggleVideoLike 10 (Oid 2) race_world)) = 1
   \<and> length (video_likes 2 (snd (toggleVideoLike 10 (Oid 2) race_world)))
       \<noteq> Like_count_video 2 (snd (toggleVideoLike 10 (Oid 2) race_world))"
proof -
  have f: "Video_findById 2 demo_world = Some demo_video2"
    by (simp add: Video_findById_def demo_world_def demo_video_def demo_video2_def)
  have a: "video_likes 2 demo_world = [10, 20]"
    by (simp add: video_likes_def f demo_video2_def)
  have b: "video_likes 2
        (snd (toggleVideoLike 10 (Oid 2) (snd (toggleVideoLike 10 (Oid 2) demo_world))))
       = [20, 10]"
    using toggleVideoLike_step(1) [OF toggleVideoLike_step(1) [OF f, of 10], of 10]
    by (simp add: video_likes_def demo_video2_def del: toggleVideoLike.simps)
  have g: "Video_findById 2 race_world = Some (demo_video2\<lparr>likes := [10, 10]\<rparr>)"
    by (simp add: Video_findById_def race_world_def demo_world_def demo_video_def demo_video2_def)
  have c1: "video_likes 2 race_world = [10, 10]"
    by (simp add: video_likes_def g)
  have c2: "Like_count_video 2 race_world = 2"
    by (simp add: Like_count_video_def race_world_def demo_world_def)
  have c: "length (video_likes 2 race_world) = Like_count_video 2 race_world"
    by (simp add: c1 c2)
  have d: "video_likes 2 (snd (toggleVideoLike 10 (Oid 2) race_world)) = []"
    using toggleVideoLike_step(1) [OF g, of 10]
    by (simp add: video_likes_def del: toggleVideoLike.simps)
  have e: "Like_count_video 2 (snd (toggleVideoLike 10 (Oid 2) race_world)) = 1"
    using toggleVideoLike_step(2) [OF g, of 10]
    by (simp add: Like_count_video_def race_world_def demo_world_def
          del: toggleVideoLike.simps)
  from a b c d e show ?thesis by (simp del: toggleVideoLike.simps)
qed

end
